theory Spec2Isabelle
  imports Main "HOL-Library.Word"
begin

unbundle bit_operations_syntax

section \<open>Bytes, strings and the Go standard library used by the sources\<close>

text \<open>
  A Go \<^verbatim>\<open>string\<close> is a sequence of bytes; it is modelled as a HOL \<^typ>\<open>string\<close>
  (a list of 8-bit characters).  A \<^verbatim>\<open>[]byte\<close> is a list of 8-bit words, and the
  conversion \<^verbatim>\<open>[]byte(s)\<close> is \<open>bytes s\<close>.
\<close>

type_synonym byte = "8 word"

definition bytes :: "string \<Rightarrow> byte list" where
  "bytes s = map of_char s"

text \<open>
  The two standard-library functions whose bodies are not part of the repository are
  parameters of the model: \<open>Sum256\<close> is the SHA-256 digest of \<^verbatim>\<open>crypto/sha256\<close> and
  \<open>Marshal\<close> is \<^verbatim>\<open>encoding/json.Marshal\<close> at type \<^verbatim>\<open>[]string\<close>
  (\<open>None\<close> is the nil slice).  Every theorem below holds for all such functions.
\<close>

record golib =
  Sum256 :: "byte list \<Rightarrow> byte list"
  Marshal :: "string list option \<Rightarrow> byte list"

subsection \<open>\<^verbatim>\<open>hash.Hash\<close> as returned by \<^verbatim>\<open>sha256.New\<close>\<close>

text \<open>
  The running hash is the sequence of bytes written so far: \<^verbatim>\<open>Write\<close> adds data to it,
  \<^verbatim>\<open>Sum(b)\<close> appends the digest of everything written to \<open>b\<close>.
\<close>

record digest =
  written :: "byte list"

definition sha256_New :: digest where
  "sha256_New = \<lparr>written = []\<rparr>"

definition hash_Write :: "digest \<Rightarrow> byte list \<Rightarrow> digest" where
  "hash_Write h p = h\<lparr>written := written h @ p\<rparr>"

definition hash_Sum :: "golib \<Rightarrow> digest \<Rightarrow> byte list \<Rightarrow> byte list" where
  "hash_Sum L h b = b @ Sum256 L (written h)"

subsection \<open>\<^verbatim>\<open>encoding/hex\<close>\<close>

definition hextable :: string where
  "hextable = ''0123456789abcdef''"

definition hex_byte :: "byte \<Rightarrow> string" where
  "hex_byte v = [hextable ! unat (drop_bit 4 v), hextable ! unat (v AND 0x0f)]"

definition hex_EncodeToString :: "byte list \<Rightarrow> string" where
  "hex_EncodeToString src = concat (map hex_byte src)"

subsection \<open>\<^verbatim>\<open>crypto/hmac\<close> and \<^verbatim>\<open>crypto/subtle\<close>\<close>

text \<open>
  \<^verbatim>\<open>hmac.New(sha256.New, key)\<close>: a key longer than the block size (64 bytes) is replaced
  by its digest, the key is zero-padded to the block size, and the inner hash starts with
  the key xor \<open>0x36\<close>.  \<^verbatim>\<open>Sum\<close> hashes the key xor \<open>0x5c\<close> followed by the inner
  digest.
\<close>

record hmac =
  opad :: "byte list"
  ipad :: "byte list"
  inner :: digest

definition sha256_BlockSize :: nat where
  "sha256_BlockSize = 64"

definition hmac_New :: "golib \<Rightarrow> byte list \<Rightarrow> hmac" where
  "hmac_New L key =
     (let blocksize = sha256_BlockSize;
          key1 = (if length key > blocksize
                  then hash_Sum L (hash_Write sha256_New key) [] else key);
          padded = take blocksize key1 @ replicate (blocksize - length key1) 0;
          ip = map (\<lambda>b. b XOR 0x36) padded;
          op = map (\<lambda>b. b XOR 0x5c) padded
      in \<lparr>opad = op, ipad = ip, inner = hash_Write sha256_New ip\<rparr>)"

definition hmac_Write :: "hmac \<Rightarrow> byte list \<Rightarrow> hmac" where
  "hmac_Write h p = h\<lparr>inner := hash_Write (inner h) p\<rparr>"

definition hmac_Sum :: "golib \<Rightarrow> hmac \<Rightarrow> byte list \<Rightarrow> byte list" where
  "hmac_Sum L h b =
     (let inner_sum = hash_Sum L (inner h) [];
          outer = hash_Write (hash_Write sha256_New (opad h)) inner_sum
      in hash_Sum L outer b)"

text \<open>
  \<^verbatim>\<open>subtle.ConstantTimeByteEq(x, y)\<close> is \<^verbatim>\<open>int((uint32(x^y) - 1) >> 31)\<close>;
  \<^verbatim>\<open>subtle.ConstantTimeCompare\<close> returns 0 on slices of different lengths and
  otherwise accumulates \<^verbatim>\<open>v |= x[i] ^ y[i]\<close>; \<^verbatim>\<open>hmac.Equal\<close> compares its result
  with 1.
\<close>

definition ConstantTimeByteEq :: "byte \<Rightarrow> byte \<Rightarrow> int" where
  "ConstantTimeByteEq x y = uint (drop_bit 31 ((ucast (x XOR y) :: 32 word) - 1))"

fun xor_accumulate :: "byte \<Rightarrow> byte list \<Rightarrow> byte list \<Rightarrow> byte" where
  "xor_accumulate v (a # x) (b # y) = xor_accumulate (v OR (a XOR b)) x y"
| "xor_accumulate v _ _ = v"

definition ConstantTimeCompare :: "byte list \<Rightarrow> byte list \<Rightarrow> int" where
  "ConstantTimeCompare x y =
     (if length x \<noteq> length y then 0
      else ConstantTimeByteEq (xor_accumulate 0 x y) 0)"

definition hmac_Equal :: "byte list \<Rightarrow> byte list \<Rightarrow> bool" where
  "hmac_Equal mac1 mac2 = (ConstantTimeCompare mac1 mac2 = 1)"

section \<open>\<^verbatim>\<open>internal/utils/hash.go\<close>\<close>

definition CommandHash :: "golib \<Rightarrow> string \<Rightarrow> string \<Rightarrow> string \<Rightarrow> string list option \<Rightarrow> string" where
  "CommandHash L raw cwd shell argv =
     (let h0 = sha256_New;
          h1 = hash_Write h0 (bytes raw);
          h2 = hash_Write h1 (bytes cwd);
          argvJSON = Marshal L argv;
          h3 = hash_Write h2 argvJSON;
          h4 = hash_Write h3 (bytes shell)
      in hex_EncodeToString (hash_Sum L h4 []))"

definition HMAC :: "golib \<Rightarrow> byte list \<Rightarrow> byte list \<Rightarrow> string" where
  "HMAC L key message =
     (let h = hmac_New L key;
          h1 = hmac_Write h message
      in hex_EncodeToString (hmac_Sum L h1 []))"

definition VerifyHMAC :: "golib \<Rightarrow> byte list \<Rightarrow> byte list \<Rightarrow> string \<Rightarrow> bool" where
  "VerifyHMAC L key message signature =
     (let expected = HMAC L key message
      in hmac_Equal (bytes expected) (bytes signature))"

text \<open>
  For the statement of the properties.  \<open>flip_bit n bs\<close> flips bit \<open>n mod 8\<close> of byte
  \<open>n div 8\<close> of \<open>bs\<close>, and \<open>flip_bit_string\<close> does the same to the bytes of a string.
  \<open>key_block\<close> is the block that \<^verbatim>\<open>hmac.New\<close> derives from the key, and
  \<open>hmac_digested L key message\<close> lists the byte strings of which the computation of
  \<open>HMAC L key message\<close> takes the SHA-256 digest: the key when it is longer than a block,
  the inner input and the outer input.  \<open>collision_free L xs\<close> says that the digest has no
  collision among the byte strings \<open>xs\<close>; \<^verbatim>\<open>sha256.Size\<close> is the length of a digest.
\<close>

definition sha256_Size :: nat where
  "sha256_Size = 32"

definition flip_bit :: "nat \<Rightarrow> byte list \<Rightarrow> byte list" where
  "flip_bit n bs = bs[n div 8 := (bs ! (n div 8)) XOR push_bit (n mod 8) 1]"

definition flip_bit_string :: "nat \<Rightarrow> string \<Rightarrow> string" where
  "flip_bit_string n s = map (\<lambda>b. char_of (unat b)) (flip_bit n (bytes s))"

definition key_block :: "golib \<Rightarrow> byte list \<Rightarrow> byte list" where
  "key_block L key =
     (let key1 = (if length key > sha256_BlockSize then Sum256 L key else key)
      in take sha256_BlockSize key1 @ replicate (sha256_BlockSize - length key1) 0)"

definition hmac_digested :: "golib \<Rightarrow> byte list \<Rightarrow> byte list \<Rightarrow> byte list list" where
  "hmac_digested L key message =
     (let h = hmac_New L key;
          inner_input = ipad h @ message
      in (if length key > sha256_BlockSize then [key] else [])
         @ [inner_input, opad h @ Sum256 L inner_input])"

definition collision_free :: "golib \<Rightarrow> byte list list \<Rightarrow> bool" where
  "collision_free L xs = (\<forall>x \<in> set xs. \<forall>y \<in> set xs. Sum256 L x = Sum256 L y \<longrightarrow> x = y)"

section \<open>Command specifications and risk tiers (\<^verbatim>\<open>internal/db\<close>, \<^verbatim>\<open>internal/core\<close>)\<close>

text \<open>
  \<^verbatim>\<open>db.CommandSpec\<close> as the sources build it (\<^verbatim>\<open>run.go\<close>, the tests): the raw command,
  the working directory, the shell flag, the optional argv and the stored hash.
\<close>

record CommandSpec =
  Raw :: string
  Cwd :: string
  Shell :: bool
  Argv :: "string list option"
  Hash :: string

text \<open>
  Modelled from the spec: \<^verbatim>\<open>ComputeCommandHash\<close> of \<^verbatim>\<open>internal/core\<close> is called by
  \<^verbatim>\<open>run.go\<close> and the tests but is not among the sources.  By section 4.C of the
  specification it is the canonical hash of \<open>(raw, cwd, argv, shell)\<close> with the shell flag
  rendered as the tag \<open>shell\<close> or \<open>exec\<close>; the hash itself is \<open>CommandHash\<close> of
  \<^verbatim>\<open>hash.go\<close>.
\<close>

definition shell_tag :: "bool \<Rightarrow> string" where
  "shell_tag sh = (if sh then ''shell'' else ''exec'')"

definition ComputeCommandHash :: "golib \<Rightarrow> CommandSpec \<Rightarrow> string" where
  "ComputeCommandHash L spec =
     CommandHash L (Raw spec) (Cwd spec) (shell_tag (Shell spec)) (Argv spec)"

text \<open>
  \<^verbatim>\<open>db.RiskTier\<close> is a string type (the tests build \<^verbatim>\<open>db.RiskTier("unknown")\<close>).
\<close>

type_synonym RiskTier = string

definition RiskTierSafe :: RiskTier where
  "RiskTierSafe = ''safe''"

definition RiskTierCaution :: RiskTier where
  "RiskTierCaution = ''caution''"

definition RiskTierDangerous :: RiskTier where
  "RiskTierDangerous = ''dangerous''"

definition RiskTierCritical :: RiskTier where
  "RiskTierCritical = ''critical''"

text \<open>
  Modelled from the spec: \<^verbatim>\<open>tierHigher\<close> of \<^verbatim>\<open>internal/core\<close> is exercised by
  \<^verbatim>\<open>TestTierHigher\<close> but is not among the sources.  Section 4.B: the tier ordering is
  \<open>caution < dangerous < critical\<close> and \<open>tierHigher(a, b)\<close> returns \<open>a > b\<close>.  The test
  table fixes the remaining cases: a tier outside the three ranks below all of them.
\<close>

definition tier_rank :: "RiskTier \<Rightarrow> nat" where
  "tier_rank t =
     (if t = RiskTierCritical then 3
      else if t = RiskTierDangerous then 2
      else if t = RiskTierCaution then 1
      else 0)"

definition tierHigher :: "RiskTier \<Rightarrow> RiskTier \<Rightarrow> bool" where
  "tierHigher a b = (tier_rank a > tier_rank b)"

section \<open>The request store (\<^verbatim>\<open>internal/db\<close>)\<close>

text \<open>
  \<^verbatim>\<open>db.RequestStatus\<close> is a string type; \<^verbatim>\<open>run.go\<close> converts a status to the string it
  reports.  The names are those of the state machine of the specification.
\<close>

type_synonym RequestStatus = string

definition StatusPending :: RequestStatus where
  "StatusPending = ''pending''"

definition StatusApproved :: RequestStatus where
  "StatusApproved = ''approved''"

definition StatusRejected :: RequestStatus where
  "StatusRejected = ''rejected''"

definition StatusExecuting :: RequestStatus where
  "StatusExecuting = ''executing''"

definition StatusExecuted :: RequestStatus where
  "StatusExecuted = ''executed''"

definition StatusExecutionFailed :: RequestStatus where
  "StatusExecutionFailed = ''execution_failed''"

definition StatusCancelled :: RequestStatus where
  "StatusCancelled = ''cancelled''"

definition StatusTimeout :: RequestStatus where
  "StatusTimeout = ''timeout''"

definition StatusApprovedExpired :: RequestStatus where
  "StatusApprovedExpired = ''approved_expired''"

text \<open>
  \<^verbatim>\<open>db.Request\<close> with the fields the sources read or set.  A time is a number of
  nanoseconds; \<open>ApprovalExpiresAt\<close> is a pointer in Go, \<open>None\<close> is nil.
\<close>

record Request =
  ID :: string
  ProjectPath :: string
  RequestorSessionID :: string
  RequestorAgent :: string
  RequestorModel :: string
  RiskTier :: RiskTier
  Command :: CommandSpec
  MinApprovals :: int
  Status :: RequestStatus
  ApprovalExpiresAt :: "int option"

text \<open>
  Modelled from the spec: the store operations that \<^verbatim>\<open>run.go\<close> and the executor call live
  in \<^verbatim>\<open>internal/db\<close>, which is not among the sources.  The store is the table of requests,
  looked up by id (section 4.A).  \<open>IsTerminal\<close> holds of the terminal states of section 3.
  \<open>UpdateRequestStatus\<close> is the atomic compare-and-set of section 4.A on the transitions of
  the state machine of section 4.E'.  \<open>GetRequestWithReviews\<close> returns the request (the
  reviews, which \<^verbatim>\<open>run.go\<close> discards, are left out).
\<close>

type_synonym DB = "Request list"

definition GetRequest :: "DB \<Rightarrow> string \<Rightarrow> string + Request" where
  "GetRequest db rid =
     (case find (\<lambda>r. ID r = rid) db of
        None \<Rightarrow> Inl ''request not found''
      | Some r \<Rightarrow> Inr r)"

definition GetRequestWithReviews :: "DB \<Rightarrow> string \<Rightarrow> string + Request" where
  "GetRequestWithReviews db rid = GetRequest db rid"

definition IsTerminal :: "RequestStatus \<Rightarrow> bool" where
  "IsTerminal s =
     (s = StatusApprovedExpired \<or> s = StatusRejected \<or> s = StatusTimeout
      \<or> s = StatusExecuted \<or> s = StatusExecutionFailed \<or> s = StatusCancelled)"

definition transitions :: "(RequestStatus \<times> RequestStatus) list" where
  "transitions =
     [(StatusPending, StatusApproved), (StatusPending, StatusRejected),
      (StatusPending, StatusTimeout), (StatusPending, StatusCancelled),
      (StatusApproved, StatusExecuting), (StatusApproved, StatusApprovedExpired),
      (StatusExecuting, StatusExecuted), (StatusExecuting, StatusExecutionFailed)]"

definition UpdateRequestStatus :: "DB \<Rightarrow> string \<Rightarrow> RequestStatus \<Rightarrow> string + DB" where
  "UpdateRequestStatus db rid new =
     (case find (\<lambda>r. ID r = rid) db of
        None \<Rightarrow> Inl ''request not found''
      | Some r \<Rightarrow>
          if (Status r, new) \<in> set transitions
          then Inr (map (\<lambda>q. if ID q = rid then q\<lparr>Status := new\<rparr> else q) db)
          else Inl ''invalid status transition'')"

section \<open>\<^verbatim>\<open>internal/output\<close>: the writer\<close>

text \<open>
  A response is a \<^verbatim>\<open>map[string]any\<close>.  What the process prints is a list of events: a
  JSON object on standard output, a value formatted on standard error, or a line of text on
  standard error.
\<close>

datatype any = AString string | AInt int | ABool bool

type_synonym resp = "string \<rightharpoonup> any"

datatype event = StdoutJSON resp | StderrValue resp | Stderr string

definition FormatText :: string where
  "FormatText = ''text''"

definition FormatJSON :: string where
  "FormatJSON = ''json''"

text \<open>
  \<^verbatim>\<open>Writer.Write\<close>: JSON goes to standard output (\<^verbatim>\<open>OutputJSON\<close>), text to standard
  error, any other format is an error.
\<close>

definition Writer_Write :: "string \<Rightarrow> resp \<Rightarrow> event list \<times> string option" where
  "Writer_Write format data =
     (if format = FormatJSON then ([StdoutJSON data], None)
      else if format = FormatText then ([StderrValue data], None)
      else ([], Some (''unsupported format: '' @ format)))"

section \<open>\<^verbatim>\<open>internal/cli/run.go\<close>\<close>

subsection \<open>What the command receives from outside\<close>

record General =
  EnableRollbackCapture :: bool
  MaxRollbackSizeMB :: int

record Config =
  General :: General

record Justification =
  Reason :: string
  ExpectedEffect :: string
  Goal :: string
  SafetyArgument :: string

record AttachmentFlags =
  Files :: "string list"
  Contexts :: "string list"
  Screenshots :: "string list"

typedecl Attachment

record CreateRequestOptions =
  SessionID_opt :: string
  Command_opt :: string
  Cwd_opt :: string
  Shell_opt :: bool
  Justification_opt :: Justification
  Attachments_opt :: "Attachment list"
  ProjectPath_opt :: string

record CreateRequestResult =
  Skipped :: bool
  Request :: "Request option"

record RunResult =
  ExitCode :: int
  Duration :: int
  Output :: string

record ExecuteOptions =
  RequestID_x :: string
  SessionID_x :: string
  LogDir_x :: string
  SuppressOutput_x :: bool
  CaptureRollback_x :: bool
  MaxRollbackSizeMB_x :: int

record ExecuteResult =
  ExitCode_x :: int
  Duration_x :: int
  LogPath_x :: string

text \<open>
  Everything \<^verbatim>\<open>run\<close> obtains from code that is not in \<^verbatim>\<open>run.go\<close> is a field of the
  environment: the flags, the results of the calls into \<^verbatim>\<open>config\<close>, \<^verbatim>\<open>os\<close>, \<^verbatim>\<open>db\<close> and
  \<^verbatim>\<open>core\<close> (an error is \<open>Inl\<close> or \<open>Some\<close>), the clock, and what the other processes do
  to the shared store.  \<open>others E k\<close> is applied to the store before the \<open>k\<close>-th access of
  this process during the wait for approval; \<open>extra E k\<close> is the time the \<open>k\<close>-th round of
  the wait loop takes beyond its sleep of 500 ms.  The creator and the executor receive the
  store and return it; the adapters \<^verbatim>\<open>toRateLimitConfig\<close> and
  \<^verbatim>\<open>toRequestCreatorConfig\<close> only prepare the arguments of the creator, which here receives
  the configuration itself.
\<close>

record Env =
  flagSessionID :: string
  flagRunReason :: string
  flagRunExpectedEffect :: string
  flagRunGoal :: string
  flagRunSafety :: string
  flagRunTimeout :: int
  flagRunYield :: bool
  flagRunAttachFile :: "string list"
  flagRunAttachContext :: "string list"
  flagRunAttachScreen :: "string list"
  GetOutput :: string
  projectPath :: "string + string"
  config_Load :: "string + Config"
  os_Getwd :: "string + string"
  db_OpenAndMigrate :: "string option"
  database :: DB
  CollectAttachments :: "AttachmentFlags \<Rightarrow> string + Attachment list"
  CreateRequest :: "Config \<Rightarrow> DB \<Rightarrow> CreateRequestOptions \<Rightarrow> (string + CreateRequestResult) \<times> DB"
  filepath_Join :: "string list \<Rightarrow> string"
  os_MkdirAll :: "string \<Rightarrow> string option"
  os_Create :: "string \<Rightarrow> string option"
  timestamp :: string
  RunCommand :: "CommandSpec \<Rightarrow> string \<Rightarrow> bool \<Rightarrow> RunResult option \<times> string option"
  ExecuteApprovedRequest :: "DB \<Rightarrow> ExecuteOptions \<Rightarrow> (ExecuteResult option \<times> string option) \<times> DB"
  time_Now :: int
  others :: "nat \<Rightarrow> DB \<Rightarrow> DB"
  extra :: "nat \<Rightarrow> nat"

subsection \<open>What the command does\<close>

text \<open>
  The process ends by returning from \<^verbatim>\<open>RunE\<close> (with an error or nil), by
  \<^verbatim>\<open>os.Exit\<close>, or by a nil dereference.  Its outcome records that, the events printed, the
  store it leaves and the commands it ran itself through \<^verbatim>\<open>core.RunCommand\<close> (with their log
  paths).
\<close>

datatype exit = Return "string option" | Exit int | Panic

record Outcome =
  exit :: exit
  events :: "event list"
  final_store :: DB
  ran :: "(CommandSpec \<times> string) list"

definition writeError :: "Env \<Rightarrow> DB \<Rightarrow> string \<Rightarrow> string \<Rightarrow> string \<Rightarrow> Outcome" where
  "writeError E db status command err =
     (let resp = [''status'' \<mapsto> AString status, ''command'' \<mapsto> AString command,
                  ''error'' \<mapsto> AString err];
          evs = (if GetOutput E = ''json'' then fst (Writer_Write (GetOutput E) resp)
                 else [Stderr (''[slb] Error: '' @ err)])
      in \<lparr>exit = Exit 1, events = evs, final_store = db, ran = []\<rparr>)"

definition createRunLogFile :: "Env \<Rightarrow> string \<Rightarrow> string \<Rightarrow> string + string" where
  "createRunLogFile E project prefix0 =
     (let prefix = (if prefix0 = [] then ''run'' else prefix0);
          baseDir = (if project \<noteq> [] then filepath_Join E [project, ''.slb'', ''logs'']
                     else ''.slb/logs'')
      in case os_MkdirAll E baseDir of
           Some err \<Rightarrow> Inl (''creating log dir: '' @ err)
         | None \<Rightarrow>
             (let logName = timestamp E @ ''_'' @ prefix @ ''.log'';
                  logPath = filepath_Join E [baseDir, logName]
              in (case os_Create E logPath of
                    Some err \<Rightarrow> Inl (''creating log file: '' @ err)
                  | None \<Rightarrow> Inr logPath)))"

text \<open>\<^verbatim>\<open>Duration.Milliseconds\<close>: integer division of the nanoseconds, truncated towards zero.\<close>

definition Milliseconds :: "int \<Rightarrow> int" where
  "Milliseconds d = (if 0 \<le> d then d div 1000000 else - ((- d) div 1000000))"

text \<open>
  The verb \<^verbatim>\<open>%d\<close> of \<^verbatim>\<open>fmt.Fprintf\<close> at type \<^verbatim>\<open>int\<close>: the decimal digits, with a minus
  sign for a negative number.
\<close>

function decimal :: "nat \<Rightarrow> string" where
  "decimal n = (if n < 10 then [''0123456789'' ! n]
                else decimal (n div 10) @ [''0123456789'' ! (n mod 10)])"
  by pat_completeness auto
termination
  by (relation "measure (\<lambda>n. n)") auto

declare decimal.simps [simp del]

definition format_d :: "int \<Rightarrow> string" where
  "format_d i = (if i < 0 then CHR ''-'' # decimal (nat (- i)) else decimal (nat i))"

text \<open>
  Both \<^verbatim>\<open>runSafeCommand\<close> and \<^verbatim>\<open>runApprovedRequest\<close> end in the same way: exit status 1
  when the execution reported an error, else the exit code of the command when it is not
  zero, else a normal return; in text mode the first two cases print a line on standard
  error before they exit (the second one after an empty line).
\<close>

definition exit_after :: "string option \<Rightarrow> int \<Rightarrow> exit" where
  "exit_after execErr exitCode =
     (if execErr \<noteq> None then Exit 1
      else if exitCode \<noteq> 0 then Exit exitCode
      else Return None)"

definition runSafeCommand :: "golib \<Rightarrow> Env \<Rightarrow> DB \<Rightarrow> string \<Rightarrow> string \<Rightarrow> string \<Rightarrow> Outcome" where
  "runSafeCommand L E db command cwd project =
     (case createRunLogFile E project ''safe'' of
        Inl err \<Rightarrow> writeError E db ''log_create_failed'' command err
      | Inr logPath \<Rightarrow>
          let spec0 = \<lparr>Raw = command, Cwd = cwd, Shell = True, Argv = None, Hash = []\<rparr>;
              spec = spec0\<lparr>Hash := ComputeCommandHash L spec0\<rparr>;
              streaming = (GetOutput E \<noteq> ''json'');
              (result, execErr) = RunCommand E spec logPath streaming;
              exitCode = (case result of None \<Rightarrow> 0 | Some r \<Rightarrow> ExitCode r);
              durationMs = (case result of None \<Rightarrow> 0 | Some r \<Rightarrow> Milliseconds (Duration r));
              resp0 = [''status'' \<mapsto> AString ''executed'', ''command'' \<mapsto> AString command,
                       ''exit_code'' \<mapsto> AInt exitCode, ''duration_ms'' \<mapsto> AInt durationMs,
                       ''log_path'' \<mapsto> AString logPath, ''tier'' \<mapsto> AString ''safe'',
                       ''skipped_approval'' \<mapsto> ABool True];
              resp = (case execErr of None \<Rightarrow> resp0
                      | Some e \<Rightarrow> resp0(''error'' \<mapsto> AString e))
          in if GetOutput E = ''json''
             then \<lparr>exit = exit_after execErr exitCode,
                   events = fst (Writer_Write (GetOutput E) resp),
                   final_store = db, ran = [(spec, logPath)]\<rparr>
             else \<lparr>exit = exit_after execErr exitCode,
                   events = (case execErr of
                               Some e \<Rightarrow> [Stderr (''[slb] Execution failed: '' @ e)]
                             | None \<Rightarrow> if exitCode \<noteq> 0
                                        then [Stderr (CHR 0x0A # ''[slb] Command exited with code ''
                                                     @ format_d exitCode)]
                                        else []),
                   final_store = db, ran = [(spec, logPath)]\<rparr>)"

definition runApprovedRequest :: "Env \<Rightarrow> DB \<Rightarrow> Config \<Rightarrow> string \<Rightarrow> string \<Rightarrow> Outcome" where
  "runApprovedRequest E db cfg project requestID =
     (let opts = \<lparr>RequestID_x = requestID, SessionID_x = flagSessionID E,
                  LogDir_x = ''.slb/logs'', SuppressOutput_x = (GetOutput E = ''json''),
                  CaptureRollback_x = EnableRollbackCapture (General cfg),
                  MaxRollbackSizeMB_x = MaxRollbackSizeMB (General cfg)\<rparr>;
          ((execResult, execErr), db1) = ExecuteApprovedRequest E db opts;
          exitCode = (case execResult of None \<Rightarrow> 0 | Some r \<Rightarrow> ExitCode_x r);
          durationMs = (case execResult of None \<Rightarrow> 0 | Some r \<Rightarrow> Milliseconds (Duration_x r));
          logPath = (case execResult of None \<Rightarrow> [] | Some r \<Rightarrow> LogPath_x r);
          resp0 = [''status'' \<mapsto> AString ''executed'', ''request_id'' \<mapsto> AString requestID,
                   ''exit_code'' \<mapsto> AInt exitCode, ''duration_ms'' \<mapsto> AInt durationMs,
                   ''log_path'' \<mapsto> AString logPath];
          resp = (case execErr of None \<Rightarrow> resp0
                  | Some e \<Rightarrow> resp0(''error'' \<mapsto> AString e))
      in if GetOutput E = ''json''
         then \<lparr>exit = exit_after execErr exitCode,
               events = fst (Writer_Write (GetOutput E) resp),
               final_store = db1, ran = []\<rparr>
         else \<lparr>exit = exit_after execErr exitCode,
               events = (case execErr of
                           Some e \<Rightarrow> [Stderr (''[slb] Execution failed: '' @ e)]
                         | None \<Rightarrow> if exitCode \<noteq> 0
                                    then [Stderr (CHR 0x0A # ''[slb] Command exited with code ''
                                                     @ format_d exitCode)]
                                    else []),
               final_store = db1, ran = []\<rparr>)"

text \<open>
  Step 4, the wait for approval.  \<^verbatim>\<open>time.Duration(flagRunTimeout) * time.Second\<close> is a
  product of 64-bit integers and wraps.  Each round of the loop reads the clock, polls the
  store and sleeps 500 ms, so the next round reads a clock that is at least 500 ms later.
  The loop ends in \<^verbatim>\<open>writeError\<close> (\<open>Inl\<close>) or falls through to the code after it with
  the request last read (\<open>Inr\<close>, with the number of store accesses made and the store).
\<close>

definition Second :: int where
  "Second = 1000000000"

definition Millisecond :: int where
  "Millisecond = 1000000"

definition Duration_times_Second :: "int \<Rightarrow> int" where
  "Duration_times_Second n = sint ((word_of_int n :: 64 word) * word_of_int Second)"

function wait_loop ::
  "Env \<Rightarrow> string \<Rightarrow> int \<Rightarrow> int \<Rightarrow> nat \<Rightarrow> DB \<Rightarrow> Request \<Rightarrow> Outcome + nat \<times> DB \<times> Request" where
  "wait_loop E command deadline now k db request =
     (if now < deadline then
        (let db1 = others E k db in
         case GetRequestWithReviews db1 (ID request) of
           Inl err \<Rightarrow> Inl (writeError E db1 ''poll_failed'' command err)
         | Inr request1 \<Rightarrow>
             if Status request1 = StatusApproved then Inr (Suc k, db1, request1)
             else if IsTerminal (Status request1)
             then Inl (writeError E db1 (Status request1) command
                         (''request '' @ ID request1 @ '': '' @ Status request1))
             else wait_loop E command deadline
                    (now + 500 * Millisecond + int (extra E k)) (Suc k) db1 request1)
      else Inr (k, db, request))"
  by pat_completeness auto
termination
  by (relation "measure (\<lambda>(E, command, deadline, now, k, db, request). nat (deadline - now))")
     (auto simp: Millisecond_def)

definition waitForApproval :: "Env \<Rightarrow> DB \<Rightarrow> Config \<Rightarrow> string \<Rightarrow> string \<Rightarrow> Request \<Rightarrow> Outcome" where
  "waitForApproval E db cfg project command request0 =
     (let deadline = time_Now E + Duration_times_Second (flagRunTimeout E)
      in case wait_loop E command deadline (time_Now E) 0 db request0 of
           Inl outcome \<Rightarrow> outcome
         | Inr (k, db1, request) \<Rightarrow>
             if Status request = StatusPending then
               (let db2 = others E k db1;
                    db3 = (case UpdateRequestStatus db2 (ID request) StatusTimeout of
                             Inl _ \<Rightarrow> db2 | Inr d \<Rightarrow> d)
                in writeError E db3 ''timeout'' command
                     (''request '' @ ID request @ '' timed out waiting for approval''))
             else runApprovedRequest E (others E k db1) cfg project (ID request))"

text \<open>
  The arguments \<^verbatim>\<open>RunE\<close> builds for its callees: the attachment flags, the working
  directory (the project directory when \<^verbatim>\<open>os.Getwd\<close> fails), the options of
  \<^verbatim>\<open>CreateRequest\<close> (\<^verbatim>\<open>run\<close> always uses the shell), the answer in yield mode.
\<close>

definition attachment_flags :: "Env \<Rightarrow> AttachmentFlags" where
  "attachment_flags E =
     \<lparr>Files = flagRunAttachFile E, Contexts = flagRunAttachContext E,
      Screenshots = flagRunAttachScreen E\<rparr>"

definition getwd_or :: "Env \<Rightarrow> string \<Rightarrow> string" where
  "getwd_or E project = (case os_Getwd E of Inl _ \<Rightarrow> project | Inr d \<Rightarrow> d)"

definition create_options ::
  "Env \<Rightarrow> string \<Rightarrow> string \<Rightarrow> string \<Rightarrow> Attachment list \<Rightarrow> CreateRequestOptions" where
  "create_options E command cwd project attachments =
     \<lparr>SessionID_opt = flagSessionID E, Command_opt = command, Cwd_opt = cwd,
      Shell_opt = True,
      Justification_opt = \<lparr>Reason = flagRunReason E, ExpectedEffect = flagRunExpectedEffect E,
                            Goal = flagRunGoal E, SafetyArgument = flagRunSafety E\<rparr>,
      Attachments_opt = attachments, ProjectPath_opt = project\<rparr>"

definition yield_response :: "Request \<Rightarrow> resp" where
  "yield_response request =
     [''status'' \<mapsto> AString ''pending'', ''request_id'' \<mapsto> AString (ID request),
      ''tier'' \<mapsto> AString (RiskTier request),
      ''min_approvals'' \<mapsto> AInt (MinApprovals request),
      ''message'' \<mapsto> AString (''Request created, yielding to background. Check status with: slb status '' @ ID request)]"

definition returned :: "Env \<Rightarrow> string option \<Rightarrow> Outcome" where
  "returned E err = \<lparr>exit = Return err, events = [], final_store = database E, ran = []\<rparr>"

definition RunE :: "golib \<Rightarrow> Env \<Rightarrow> string \<Rightarrow> Outcome" where
  "RunE L E command =
     (if flagSessionID E = [] then returned E (Some ''--session-id is required'')
      else case projectPath E of
        Inl err \<Rightarrow> returned E (Some err)
      | Inr project \<Rightarrow>
      (case config_Load E of
        Inl err \<Rightarrow> returned E (Some (''loading config: '' @ err))
      | Inr cfg \<Rightarrow>
      (let cwd = getwd_or E project in
       case db_OpenAndMigrate E of
        Some err \<Rightarrow> returned E (Some (''opening database: '' @ err))
      | None \<Rightarrow>
      (let dbConn = database E in
       case CollectAttachments E (attachment_flags E) of
        Inl err \<Rightarrow> writeError E dbConn ''attachment_error'' command err
      | Inr attachments \<Rightarrow>
      (case CreateRequest E cfg dbConn (create_options E command cwd project attachments) of
        (Inl err, db1) \<Rightarrow> writeError E db1 ''request_failed'' command err
      | (Inr result, db1) \<Rightarrow>
          if Skipped result then runSafeCommand L E db1 command cwd project
          else (case Request result of
            None \<Rightarrow> \<lparr>exit = Panic, events = [], final_store = db1, ran = []\<rparr>
          | Some request \<Rightarrow>
              if flagRunYield E \<and> Status request = StatusPending then
                (let (evs, err) = Writer_Write (GetOutput E) (yield_response request)
                 in \<lparr>exit = Return err, events = evs, final_store = db1, ran = []\<rparr>)
              else waitForApproval E db1 cfg project command request))))))"


fun clock_at :: "Env \<Rightarrow> nat \<Rightarrow> int" where
  "clock_at E 0 = time_Now E"
| "clock_at E (Suc k) = clock_at E k + 500 * Millisecond + int (extra E k)"

definition deadline_of :: "Env \<Rightarrow> int" where
  "deadline_of E = time_Now E + Duration_times_Second (flagRunTimeout E)"

definition status_of :: "DB \<Rightarrow> string \<Rightarrow> RequestStatus option" where
  "status_of db rid = (case GetRequest db rid of Inl _ \<Rightarrow> None | Inr r \<Rightarrow> Some (Status r))"

section \<open>The request creator (\<^verbatim>\<open>internal/core\<close>)\<close>

text \<open>
  Modelled from the spec: \<^verbatim>\<open>RequestCreator.CreateRequest\<close> is called by \<^verbatim>\<open>run.go\<close> but is
  not among the sources.  Section 4.E: (1) the session is validated (it exists and its
  agent is not blocked); (2) the rate limiter is applied and its action honoured; (3) the
  command specification is built and classified by the pattern engine; (4) when the tier is
  \<open>safe\<close> the creator returns \<open>skipped = true\<close> and persists nothing; (5, 6) otherwise
  the request is persisted with status \<open>pending\<close> and the number of approvals of its
  tier (critical 2, dangerous 1, caution 1); (7) the notification is asynchronous and its
  failures are not propagated, so it changes neither the result nor the store.  When an
  identical request \<open>(project, command hash, requestor session)\<close> is pending, it is
  returned instead of a duplicate.

  The session check, the rate limiter (it returns the error of a rejecting limiter), the
  pattern engine and the fields of a new request that section 4.E does not determine (its
  identifier, the agent and the model of the session) are fields of the creator.
\<close>

record RequestCreator =
  validate_session :: "DB \<Rightarrow> string \<Rightarrow> string option"
  rate_limit :: "DB \<Rightarrow> string \<Rightarrow> string option"
  classify :: "CommandSpec \<Rightarrow> RiskTier"
  fresh_request :: "DB \<Rightarrow> CreateRequestOptions \<Rightarrow> Request"

definition default_min_approvals :: "RiskTier \<Rightarrow> int" where
  "default_min_approvals tier = (if tier = RiskTierCritical then 2 else 1)"

definition find_duplicate :: "DB \<Rightarrow> string \<Rightarrow> string \<Rightarrow> string \<Rightarrow> Request option" where
  "find_duplicate db project hash session =
     find (\<lambda>r. Status r = StatusPending \<and> ProjectPath r = project
               \<and> Hash (Command r) = hash \<and> RequestorSessionID r = session) db"

definition RequestCreator_CreateRequest ::
  "golib \<Rightarrow> RequestCreator \<Rightarrow> Config \<Rightarrow> DB \<Rightarrow> CreateRequestOptions
   \<Rightarrow> (string + CreateRequestResult) \<times> DB" where
  "RequestCreator_CreateRequest L C cfg db opts =
     (case validate_session C db (SessionID_opt opts) of
        Some err \<Rightarrow> (Inl err, db)
      | None \<Rightarrow>
     (case rate_limit C db (SessionID_opt opts) of
        Some err \<Rightarrow> (Inl err, db)
      | None \<Rightarrow>
        (let spec0 = \<lparr>Raw = Command_opt opts, Cwd = Cwd_opt opts, Shell = Shell_opt opts,
                      Argv = None, Hash = []\<rparr>;
             spec = spec0\<lparr>Hash := ComputeCommandHash L spec0\<rparr>;
             tier = classify C spec
         in if tier = RiskTierSafe then (Inr \<lparr>Skipped = True, Request = None\<rparr>, db)
            else (case find_duplicate db (ProjectPath_opt opts) (Hash spec) (SessionID_opt opts) of
                    Some r \<Rightarrow> (Inr \<lparr>Skipped = False, Request = Some r\<rparr>, db)
                  | None \<Rightarrow>
                      (let request = (fresh_request C db opts)
                             \<lparr>ProjectPath := ProjectPath_opt opts,
                              RequestorSessionID := SessionID_opt opts,
                              RiskTier := tier, Command := spec,
                              MinApprovals := default_min_approvals tier,
                              Status := StatusPending\<rparr>
                       in (Inr \<lparr>Skipped = False, Request = Some request\<rparr>, db @ [request]))))))"

section \<open>The executor preflight (\<^verbatim>\<open>internal/core\<close>)\<close>

text \<open>
  Modelled from the spec: \<^verbatim>\<open>Executor.CanExecute\<close> is exercised by
  \<^verbatim>\<open>TestExecutorCanExecute\<close> but is not among the sources.  Section 4.G gives the
  preflight as four checks in order: the request exists (else \<open>not_found\<close>); its status is
  \<open>approved\<close> (else \<open>not_approved\<close>, unless it is \<open>executed\<close> or \<open>execution_failed\<close>,
  then \<open>already_executed\<close>, or \<open>executing\<close>, then \<open>already_executing\<close>);
  \<open>approval_expires_at > now\<close> (else the request moves to \<open>approved_expired\<close> and the
  answer is \<open>expired\<close>); the stored hash equals the recomputed hash (else
  \<open>integrity_violation\<close>).  The function returns a flag and a reason, empty on success;
  the texts of the reasons contain what the tests look for.  A request without an expiry
  time does not satisfy \<open>approval_expires_at > now\<close>.
\<close>

definition reason_not_found :: string where
  "reason_not_found = ''request not found''"

definition reason_already_executing :: string where
  "reason_already_executing = ''request is already being executed''"

definition reason_already_executed :: string where
  "reason_already_executed = ''request has already been executed''"

definition reason_not_approved :: string where
  "reason_not_approved = ''request is not approved''"

definition reason_expired :: string where
  "reason_expired = ''approval has expired''"

definition reason_integrity_violation :: string where
  "reason_integrity_violation = ''command hash mismatch''"

definition approval_live :: "int \<Rightarrow> Request \<Rightarrow> bool" where
  "approval_live now request =
     (case ApprovalExpiresAt request of None \<Rightarrow> False | Some t \<Rightarrow> now < t)"

definition CanExecute :: "golib \<Rightarrow> DB \<Rightarrow> int \<Rightarrow> string \<Rightarrow> (bool \<times> string) \<times> DB" where
  "CanExecute L db now requestID =
     (case GetRequest db requestID of
        Inl err \<Rightarrow> ((False, reason_not_found), db)
      | Inr request \<Rightarrow>
          if Status request \<noteq> StatusApproved then
            (if Status request = StatusExecuted \<or> Status request = StatusExecutionFailed
             then ((False, reason_already_executed), db)
             else if Status request = StatusExecuting
             then ((False, reason_already_executing), db)
             else ((False, reason_not_approved), db))
          else if \<not> approval_live now request then
            (let db1 = (case UpdateRequestStatus db requestID StatusApprovedExpired of
                          Inl err \<Rightarrow> db | Inr d \<Rightarrow> d)
             in ((False, reason_expired), db1))
          else if Hash (Command request) \<noteq> ComputeCommandHash L (Command request)
          then ((False, reason_integrity_violation), db)
          else ((True, []), db))"

section \<open>Retention of rollback captures (\<^verbatim>\<open>internal/core\<close>)\<close>

text \<open>
  Modelled from the spec: \<^verbatim>\<open>cleanupOldRollbackCaptures\<close> is exercised by
  \<^verbatim>\<open>TestCleanupOldRollbackCaptures\<close> but is not among the sources.  Section 4.H
  (Retention): a retention of zero or less is a no-op; a missing root is a no-op; only the
  entries that are directories and whose name begins with \<open>req-\<close> are candidates; the
  candidates with \<open>mtime < now - retention\<close> are deleted.  The root directory is given by
  its entries (\<open>None\<close> when it does not exist), each with its name, whether it is a
  directory, and its modification time; the function returns its error (always nil) and
  the directory it leaves.  The entries are visited one by one.
\<close>

record DirEntry =
  Name :: string
  IsDir :: bool
  ModTime :: int

definition strings_HasPrefix :: "string \<Rightarrow> string \<Rightarrow> bool" where
  "strings_HasPrefix s p = (length p \<le> length s \<and> take (length p) s = p)"

fun cleanup_entries :: "int \<Rightarrow> DirEntry list \<Rightarrow> DirEntry list" where
  "cleanup_entries cutoff [] = []"
| "cleanup_entries cutoff (e # es) =
     (if \<not> IsDir e then e # cleanup_entries cutoff es
      else if \<not> strings_HasPrefix (Name e) ''req-'' then e # cleanup_entries cutoff es
      else if ModTime e < cutoff then cleanup_entries cutoff es
      else e # cleanup_entries cutoff es)"

definition cleanupOldRollbackCaptures ::
  "DirEntry list option \<Rightarrow> int \<Rightarrow> int \<Rightarrow> string option \<times> DirEntry list option" where
  "cleanupOldRollbackCaptures root retention now =
     (if retention \<le> 0 then (None, root)
      else case root of
             None \<Rightarrow> (None, None)
           | Some entries \<Rightarrow> (None, Some (cleanup_entries (now - retention) entries)))"

section \<open>Restoring a filesystem capture (\<^verbatim>\<open>internal/core\<close>)\<close>

text \<open>
  The filesystem: a path is the list of its components from the root; a node is a
  directory or a file with its mode, or a symlink with its target (a path from the root).
  The nodes are stored at their physical paths.  \<open>walk\<close> resolves a path component by
  component as the operating system does, following symlinks (at most 40, then it fails);
  a component that does not exist is kept as it is.
\<close>

type_synonym path = "string list"

datatype node = Dir nat | File nat string | Symlink path

type_synonym FS = "path \<rightharpoonup> node"

fun walk :: "nat \<Rightarrow> FS \<Rightarrow> path \<Rightarrow> path \<Rightarrow> path option" where
  "walk fuel fs cur [] = Some cur"
| "walk fuel fs cur (c # rest) =
     (case fs (cur @ [c]) of
        Some (Symlink target) \<Rightarrow>
          (case fuel of 0 \<Rightarrow> None | Suc n \<Rightarrow> walk n fs [] (target @ rest))
      | _ \<Rightarrow> walk fuel fs (cur @ [c]) rest)"

text \<open>
  \<open>physical fs p\<close> is where the path \<open>p\<close> lives: the symlinks among its parent directories
  are followed, a symlink at \<open>p\<close> itself is not.  \<^verbatim>\<open>os.Lstat\<close> reads the node there,
  \<^verbatim>\<open>os.Stat\<close> follows a final symlink as well, and \<open>os_put\<close> stands for the calls that
  create or replace the node a path names (\<^verbatim>\<open>os.MkdirAll\<close>, writing a file,
  \<^verbatim>\<open>os.Symlink\<close>): as in the operating system, the node is written where the path
  physically lives.
\<close>

definition physical :: "FS \<Rightarrow> path \<Rightarrow> path option" where
  "physical fs p =
     (if p = [] then Some []
      else map_option (\<lambda>d. d @ [last p]) (walk 40 fs [] (butlast p)))"

definition os_Lstat :: "FS \<Rightarrow> path \<Rightarrow> node option" where
  "os_Lstat fs p = (case physical fs p of None \<Rightarrow> None | Some q \<Rightarrow> fs q)"

definition os_Stat :: "FS \<Rightarrow> path \<Rightarrow> node option" where
  "os_Stat fs p = (case walk 40 fs [] p of None \<Rightarrow> None | Some q \<Rightarrow> fs q)"

definition os_put :: "FS \<Rightarrow> path \<Rightarrow> node \<Rightarrow> string + FS" where
  "os_put fs p n =
     (case physical fs p of
        None \<Rightarrow> Inl ''too many levels of symbolic links''
      | Some q \<Rightarrow> Inr (fs(q \<mapsto> n)))"

text \<open>
  Modelled from the spec: \<^verbatim>\<open>RestoreRollbackState\<close> is exercised by the tests of
  \<^verbatim>\<open>rollback_test.go\<close> but is not among the sources.  Section 4.H (Restore): for each tar
  entry the target is the restore root joined with the entry's name; each parent directory
  of the target is walked, and if one is a symlink the restore is refused with an error
  (the kind \<open>rollback_restore_refused_symlink_parent\<close> of section 7); otherwise a directory
  is recreated with its mode, a file with its content and mode, a symlink with its link
  name.  The archive is rooted at the prefixes \<open>p0\<close>, \<open>p1\<close>, ... and the manifest maps each
  prefix to the original path (section 4.H, Filesystem strategy), so the first component
  of an entry's name selects the restore root.  The parents walked are the restore root and
  the directories below it down to the parent of the target.  A directory that exists is
  left as it is.  The function returns its error and the filesystem it leaves; the restore
  of git and Kubernetes state is not part of the model.
\<close>

datatype typeflag = TypeDir | TypeReg | TypeSymlink

record Header =
  Name_hdr :: path
  Typeflag :: typeflag
  Mode :: nat
  Linkname :: path
  Body :: string

definition refused_symlink_parent :: string where
  "refused_symlink_parent = ''rollback_restore_refused_symlink_parent''"

definition is_symlink :: "node option \<Rightarrow> bool" where
  "is_symlink n = (case n of Some (Symlink target) \<Rightarrow> True | _ \<Rightarrow> False)"

definition has_symlink_parent :: "FS \<Rightarrow> path \<Rightarrow> path \<Rightarrow> bool" where
  "has_symlink_parent fs root rel =
     list_ex (\<lambda>i. is_symlink (os_Lstat fs (root @ take i rel))) [0..<length rel]"

definition restore_entry :: "(string \<rightharpoonup> path) \<Rightarrow> FS \<Rightarrow> Header \<Rightarrow> string + FS" where
  "restore_entry manifest fs hdr =
     (case Name_hdr hdr of
        [] \<Rightarrow> Inl ''entry without a name''
      | p # rel \<Rightarrow>
          (case manifest p of
             None \<Rightarrow> Inl ''entry outside the manifest''
           | Some root \<Rightarrow>
               (let target = root @ rel in
                if has_symlink_parent fs root rel then Inl refused_symlink_parent
                else (case Typeflag hdr of
                        TypeDir \<Rightarrow>
                          (case os_Stat fs target of
                             Some (Dir m) \<Rightarrow> Inr fs
                           | Some other \<Rightarrow> Inl ''not a directory''
                           | None \<Rightarrow> os_put fs target (Dir (Mode hdr)))
                      | TypeReg \<Rightarrow> os_put fs target (File (Mode hdr) (Body hdr))
                      | TypeSymlink \<Rightarrow> os_put fs target (Symlink (Linkname hdr))))))"

fun RestoreRollbackState :: "(string \<rightharpoonup> path) \<Rightarrow> FS \<Rightarrow> Header list \<Rightarrow> string option \<times> FS" where
  "RestoreRollbackState manifest fs [] = (None, fs)"
| "RestoreRollbackState manifest fs (hdr # rest) =
     (case restore_entry manifest fs hdr of
        Inl err \<Rightarrow> (Some err, fs)
      | Inr fs1 \<Rightarrow> RestoreRollbackState manifest fs1 rest)"

section \<open>Dry-run rewrites (\<^verbatim>\<open>internal/core\<close>)\<close>














section \<open>Concrete inputs\<close>

text \<open>
  An instance of the library parameters on which the model can be run: the digest is 31
  zero bytes followed by the checksum \<open>3 * acc + b\<close> of the bytes, the encoder joins the
  arguments.  It stands for the standard library only where a closed example needs some
  library.
\<close>

definition example_lib :: golib where
  "example_lib =
     \<lparr>Sum256 = (\<lambda>bs. replicate 31 0 @ [fold (\<lambda>b acc. 3 * acc + b) bs 0]),
      Marshal = (\<lambda>a. case a of None \<Rightarrow> bytes ''null''
                               | Some xs \<Rightarrow> bytes (''['' @ concat xs @ '']''))\<rparr>"

definition example_spec :: CommandSpec where
  "example_spec = \<lparr>Raw = ''ls -la'', Cwd = ''/tmp'', Shell = True, Argv = None, Hash = []\<rparr>"

text \<open>
  A run of \<^verbatim>\<open>slb run\<close> in JSON mode with a timeout of one second, on an empty store that no
  other process touches.  The creator of this environment skips \<open>echo hi\<close> as safe and
  persists any other command as the pending request \<open>example_request\<close>.
\<close>

definition example_request :: Request where
  "example_request =
     \<lparr>ID = ''req-1'', ProjectPath = ''/p'', RequestorSessionID = ''S1'',
      RequestorAgent = ''agent'', RequestorModel = ''model'', RiskTier = RiskTierDangerous,
      Command = example_spec, MinApprovals = 1, Status = StatusPending,
      ApprovalExpiresAt = None\<rparr>"

definition example_cfg :: Config where
  "example_cfg = \<lparr>General = \<lparr>EnableRollbackCapture = False, MaxRollbackSizeMB = 0\<rparr>\<rparr>"

definition example_env :: Env where
  "example_env =
     \<lparr>flagSessionID = ''S1'', flagRunReason = ''cleanup'', flagRunExpectedEffect = [],
      flagRunGoal = [], flagRunSafety = [], flagRunTimeout = 1, flagRunYield = False,
      flagRunAttachFile = [], flagRunAttachContext = [], flagRunAttachScreen = [],
      GetOutput = ''json'',
      projectPath = Inr ''/p'',
      config_Load = Inr example_cfg,
      os_Getwd = Inr ''/p'',
      db_OpenAndMigrate = None,
      database = [],
      CollectAttachments = (\<lambda>flags. Inr []),
      CreateRequest = (\<lambda>cfg db opts.
         if Command_opt opts = ''echo hi''
         then (Inr \<lparr>Skipped = True, Request = None\<rparr>, db)
         else (Inr \<lparr>Skipped = False, Request = Some example_request\<rparr>, db @ [example_request])),
      filepath_Join = (\<lambda>elems. foldr (\<lambda>e acc. if acc = [] then e else e @ ''/'' @ acc) elems []),
      os_MkdirAll = (\<lambda>path. None),
      os_Create = (\<lambda>path. None),
      timestamp = ''20260101-000000'',
      RunCommand = (\<lambda>spec logPath streaming.
         (Some \<lparr>ExitCode = 0, Duration = 2000000, Output = ''hi''\<rparr>, None)),
      ExecuteApprovedRequest = (\<lambda>db opts. ((None, None), db)),
      time_Now = 0,
      others = (\<lambda>k db. db),
      extra = (\<lambda>k. 0)\<rparr>"



text \<open>
  The same run with the creator of section 4.E: it knows the session \<open>S1\<close>, admits one
  pending request for each session, and its pattern engine classifies \<open>echo hi\<close> as safe
  and every other command as dangerous.  \<open>example_safe_spec\<close> is the specification of
  \<open>echo hi\<close> in the directory of the run.
\<close>

definition example_creator :: RequestCreator where
  "example_creator =
     \<lparr>validate_session = (\<lambda>db sid. if sid = ''S1'' then None else Some ''session not found''),
      rate_limit = (\<lambda>db sid.
         if 1 \<le> length (filter (\<lambda>r. RequestorSessionID r = sid \<and> Status r = StatusPending) db)
         then Some ''rate limit exceeded: 1/1 pending'' else None),
      classify = (\<lambda>spec. if Raw spec = ''echo hi'' then RiskTierSafe else RiskTierDangerous),
      fresh_request = (\<lambda>db opts. example_request)\<rparr>"

definition example_env_safe :: Env where
  "example_env_safe =
     example_env\<lparr>CreateRequest := RequestCreator_CreateRequest example_lib example_creator\<rparr>"

definition example_safe_spec :: CommandSpec where
  "example_safe_spec =
     \<lparr>Raw = ''echo hi'', Cwd = ''/p'', Shell = True, Argv = None,
      Hash = ComputeCommandHash example_lib
               \<lparr>Raw = ''echo hi'', Cwd = ''/p'', Shell = True, Argv = None, Hash = []\<rparr>\<rparr>"

text \<open>
  That run when the log directory cannot be created, in text mode, when the attachments
  cannot be collected, and when the command exits with code 3.
\<close>

definition example_env_nolog :: Env where
  "example_env_nolog = example_env_safe\<lparr>os_MkdirAll := (\<lambda>path. Some ''permission denied'')\<rparr>"

definition example_env_text :: Env where
  "example_env_text = example_env_safe\<lparr>GetOutput := ''text''\<rparr>"

definition example_env_noattach :: Env where
  "example_env_noattach =
     example_env_safe\<lparr>CollectAttachments := (\<lambda>flags. Inl ''attachment not found'')\<rparr>"

definition example_env_code3 :: Env where
  "example_env_code3 =
     example_env_text\<lparr>RunCommand := (\<lambda>spec logPath streaming.
        (Some \<lparr>ExitCode = 3, Duration = 2000000, Output = []\<rparr>, None))\<rparr>"

text \<open>
  The request once approved until time 100, with the hash of its command stored, and a
  rollback directory like the one of the tests: an old and a recent capture, a directory
  of another name and a file.
\<close>

definition example_approved :: Request where
  "example_approved =
     example_request\<lparr>Status := StatusApproved, ApprovalExpiresAt := Some 100,
       Command := example_spec\<lparr>Hash := ComputeCommandHash example_lib example_spec\<rparr>\<rparr>"

definition example_entries :: "DirEntry list" where
  "example_entries =
     [\<lparr>Name = ''req-old'', IsDir = True, ModTime = 0\<rparr>,
      \<lparr>Name = ''req-recent'', IsDir = True, ModTime = 100\<rparr>,
      \<lparr>Name = ''other-dir'', IsDir = True, ModTime = 0\<rparr>,
      \<lparr>Name = ''req-file'', IsDir = False, ModTime = 0\<rparr>]"

text \<open>
  The scenario of \<^verbatim>\<open>TestRollbackFilesystemRestoreRefusesSymlinkParents\<close>: the directory
  \<open>build\<close> with \<open>sub/a.txt\<close> was captured under the prefix \<open>p0\<close>; at restore time
  \<open>build\<close> is an empty directory again and \<open>build/sub\<close> is a symlink to the directory
  \<open>outside\<close>.  (493 is mode 0755, 420 is mode 0644.)
\<close>

definition work :: path where
  "work = [''tmp'', ''project'', ''work'']"

definition scenario_fs :: FS where
  "scenario_fs =
     [[''tmp''] \<mapsto> Dir 493, [''tmp'', ''project''] \<mapsto> Dir 493, work \<mapsto> Dir 493,
      work @ [''build''] \<mapsto> Dir 493, work @ [''outside''] \<mapsto> Dir 493,
      work @ [''build'', ''sub''] \<mapsto> Symlink (work @ [''outside''])]"

definition scenario_manifest :: "string \<rightharpoonup> path" where
  "scenario_manifest = [''p0'' \<mapsto> work @ [''build'']]"

definition scenario_archive :: "Header list" where
  "scenario_archive =
     [\<lparr>Name_hdr = [''p0''], Typeflag = TypeDir, Mode = 493, Linkname = [], Body = []\<rparr>,
      \<lparr>Name_hdr = [''p0'', ''sub''], Typeflag = TypeDir, Mode = 493, Linkname = [], Body = []\<rparr>,
      \<lparr>Name_hdr = [''p0'', ''sub'', ''a.txt''], Typeflag = TypeReg, Mode = 420, Linkname = [],
        Body = ''hello''\<rparr>]"

section \<open>Properties of the hashing utilities\<close>

lemma unat_of_char: "unat (of_char c :: byte) = of_char c"
proof -
  have "(of_char c :: byte) = of_nat (of_char c)"
    by (simp add: of_nat_of_char)
  then have "unat (of_char c :: byte) = (of_char c :: nat) mod 256"
    by (simp add: unat_of_nat)
  then show ?thesis by simp
qed

lemma of_char_byte_eq_iff: "(of_char c :: byte) = of_char d \<longleftrightarrow> c = d"
proof
  assume "(of_char c :: byte) = of_char d"
  then have "unat (of_char c :: byte) = unat (of_char d :: byte)" by simp
  then show "c = d" by (simp add: unat_of_char)
qed simp

lemma bytes_eq_iff: "bytes s = bytes t \<longleftrightarrow> s = t"
proof -
  have "inj (of_char :: char \<Rightarrow> byte)"
    by (rule injI) (simp add: of_char_byte_eq_iff)
  then show ?thesis
    unfolding bytes_def by (rule inj_map_eq_map)
qed

lemma xor_eq_0_word: "(a::'a::len word) XOR b = 0 \<longleftrightarrow> a = b"
proof
  assume h: "a XOR b = 0"
  have "a = (a XOR b) XOR b" by (simp add: xor.assoc)
  then show "a = b" using h by simp
qed simp

lemma ConstantTimeByteEq_iff: "ConstantTimeByteEq x y = (if x = y then 1 else 0)"
proof (cases "x = y")
  case True
  then show ?thesis by (simp add: ConstantTimeByteEq_def drop_bit_eq_div)
next
  case False
  then have nz: "x XOR y \<noteq> 0" by (simp add: xor_eq_0_word)
  let ?w = "ucast (x XOR y) :: 32 word"
  have lt: "unat (x XOR y) < 256"
    using unsigned_less[of "x XOR y", where ?'a = nat] by simp
  then have "unat ?w = unat (x XOR y)"
    by (simp add: unsigned_ucast_eq take_bit_nat_eq_self_iff)
  moreover note lt
  moreover have "unat (x XOR y) \<noteq> 0" using nz by (simp add: unat_eq_0)
  ultimately have r: "0 < unat ?w" "unat ?w < 256" by auto
  then have "?w \<noteq> 0" by (auto simp: unat_eq_0)
  then have "unat (?w - 1) = unat ?w - 1"
    by (simp add: unat_minus_one)
  with r have "unat (?w - 1) < 2 ^ 31" by simp
  moreover have "unat (drop_bit 31 (?w - 1)) = unat (?w - 1) div 2 ^ 31"
    unfolding unat_drop_bit_eq by (simp add: drop_bit_eq_div)
  ultimately have "unat (drop_bit 31 (?w - 1)) = 0"
    by simp
  then have "drop_bit 31 (?w - 1) = 0"
    by (simp only: unat_eq_0)
  with False show ?thesis by (simp add: ConstantTimeByteEq_def)
qed

lemma xor_accumulate_eq_0:
  "length x = length y \<Longrightarrow> (xor_accumulate v x y = 0) = (v = 0 \<and> x = y)"
  by (induction v x y rule: xor_accumulate.induct) (auto simp: or_eq_0_iff xor_eq_0_word)

lemma ConstantTimeCompare_iff: "ConstantTimeCompare x y = (if x = y then 1 else 0)"
proof (cases "length x = length y")
  case True
  then show ?thesis
    by (simp add: ConstantTimeCompare_def ConstantTimeByteEq_iff xor_accumulate_eq_0)
next
  case False
  then have "x \<noteq> y" by auto
  with False show ?thesis by (simp add: ConstantTimeCompare_def)
qed

lemma hmac_Equal_iff: "hmac_Equal mac1 mac2 \<longleftrightarrow> mac1 = mac2"
  by (simp add: hmac_Equal_def ConstantTimeCompare_iff)

lemma CommandHash_unfold:
  "CommandHash L raw cwd shell argv =
     hex_EncodeToString (Sum256 L (bytes raw @ bytes cwd @ Marshal L argv @ bytes shell))"
  by (simp add: CommandHash_def Let_def sha256_New_def hash_Write_def hash_Sum_def)

lemma length_hex_EncodeToString: "length (hex_EncodeToString src) = 2 * length src"
  by (induction src) (simp_all add: hex_EncodeToString_def hex_byte_def)

text \<open>
  C2.  For every command specification the command hash is the hex encoding of SHA-256 over
  the concatenation of the raw command, the working directory, the JSON encoding of argv and
  the shell tag (and this for every tag, in particular for \<open>shell\<close> and \<open>exec\<close>, the
  only two tags of a specification); so two specifications that agree on
  \<open>(raw, cwd, argv, shell)\<close> have the same hash, whatever their other fields.
\<close>

theorem CommandHash_canonical:
  "CommandHash L (Raw s) (Cwd s) tag (Argv s) =
     hex_EncodeToString (Sum256 L (bytes (Raw s) @ bytes (Cwd s) @ Marshal L (Argv s) @ bytes tag))
   \<and> shell_tag (Shell s) \<in> {''shell'', ''exec''}
   \<and> (Raw t = Raw s \<and> Cwd t = Cwd s \<and> Argv t = Argv s \<and> Shell t = Shell s \<longrightarrow>
        CommandHash L (Raw t) (Cwd t) (shell_tag (Shell t)) (Argv t) =
        CommandHash L (Raw s) (Cwd s) (shell_tag (Shell s)) (Argv s))"
  by (simp add: CommandHash_unfold shell_tag_def)

theorem CommandHash_canonical_witness:
  "Raw (example_spec\<lparr>Hash := ''00''\<rparr>) = Raw example_spec
   \<and> Cwd (example_spec\<lparr>Hash := ''00''\<rparr>) = Cwd example_spec
   \<and> Argv (example_spec\<lparr>Hash := ''00''\<rparr>) = Argv example_spec
   \<and> Shell (example_spec\<lparr>Hash := ''00''\<rparr>) = Shell example_spec
   \<and> example_spec\<lparr>Hash := ''00''\<rparr> \<noteq> example_spec
   \<and> CommandHash example_lib (Raw (example_spec\<lparr>Hash := ''00''\<rparr>))
         (Cwd (example_spec\<lparr>Hash := ''00''\<rparr>))
         (shell_tag (Shell (example_spec\<lparr>Hash := ''00''\<rparr>)))
         (Argv (example_spec\<lparr>Hash := ''00''\<rparr>)) =
       CommandHash example_lib (Raw example_spec) (Cwd example_spec)
         (shell_tag (Shell example_spec)) (Argv example_spec)"
proof -
  let ?t = "example_spec\<lparr>Hash := ''00''\<rparr>"
  have fields: "Raw ?t = Raw example_spec \<and> Cwd ?t = Cwd example_spec
      \<and> Argv ?t = Argv example_spec \<and> Shell ?t = Shell example_spec"
    by simp
  have differ: "?t \<noteq> example_spec"
    by (simp add: example_spec_def)
  from CommandHash_canonical [of example_lib example_spec "''shell''" ?t] fields
  have "CommandHash example_lib (Raw ?t) (Cwd ?t) (shell_tag (Shell ?t)) (Argv ?t) =
        CommandHash example_lib (Raw example_spec) (Cwd example_spec)
          (shell_tag (Shell example_spec)) (Argv example_spec)"
    by blast
  with fields differ show ?thesis by blast
qed

text \<open>
  C10.  The command hash does not determine the pair \<open>(raw, cwd)\<close>: the fields are
  concatenated without separators, so for every argv and shell tag the distinct pairs
  \<open>(ab, c)\<close> and \<open>(a, bc)\<close> have the same concatenation and the same hash.
\<close>

theorem CommandHash_raw_cwd_ambiguous:
  "(''ab'', ''c'') \<noteq> (''a'', ''bc'')
   \<and> bytes ''ab'' @ bytes ''c'' = bytes ''a'' @ bytes ''bc''
   \<and> CommandHash L ''ab'' ''c'' shell argv = CommandHash L ''a'' ''bc'' shell argv"
proof -
  have cat: "bytes ''ab'' @ bytes ''c'' = bytes ''a'' @ bytes ''bc''"
    by (simp add: bytes_def)
  have "bytes ''ab'' @ bytes ''c'' @ Marshal L argv @ bytes shell =
        bytes ''a'' @ bytes ''bc'' @ Marshal L argv @ bytes shell"
    by (simp add: bytes_def)
  then have "CommandHash L ''ab'' ''c'' shell argv = CommandHash L ''a'' ''bc'' shell argv"
    by (simp only: CommandHash_unfold)
  with cat show ?thesis by simp
qed

lemma hextable_nth_inj:
  "i < 16 \<Longrightarrow> j < 16 \<Longrightarrow> hextable ! i = hextable ! j \<Longrightarrow> i = j"
proof -
  have "distinct hextable" "length hextable = 16"
    by (simp_all add: hextable_def)
  then show "i < 16 \<Longrightarrow> j < 16 \<Longrightarrow> hextable ! i = hextable ! j \<Longrightarrow> i = j"
    by (simp add: nth_eq_iff_index_eq)
qed

lemma nibble_bounds:
  fixes v :: byte
  shows "unat (drop_bit 4 v) < 16" "unat (v AND 0x0f) < 16"
proof -
  have "unat v < 256"
    using unsigned_less[of v, where ?'a = nat] by simp
  moreover have "unat (drop_bit 4 v) = drop_bit 4 (unat v)"
    by (rule unat_drop_bit_eq)
  moreover have "drop_bit 4 (unat v) = unat v div 16"
    by (simp add: drop_bit_eq_div)
  ultimately show "unat (drop_bit 4 v) < 16"
    by (simp only: less_mult_imp_div_less numeral_times_numeral semiring_norm)
  have "v AND 0x0f = take_bit 4 v"
    by (simp add: take_bit_eq_mask mask_eq_exp_minus_1)
  then have "unat (v AND 0x0f) = take_bit 4 (unat v)"
    by (simp add: unsigned_take_bit_eq)
  also have "\<dots> < 2 ^ 4" by (rule take_bit_nat_less_exp)
  finally show "unat (v AND 0x0f) < 16" by simp
qed

lemma hex_byte_inj:
  assumes "hex_byte v = hex_byte w"
  shows "v = w"
proof -
  from assms have hi: "hextable ! unat (drop_bit 4 v) = hextable ! unat (drop_bit 4 w)"
    and lo: "hextable ! unat (v AND 0x0f) = hextable ! unat (w AND 0x0f)"
    by (simp_all add: hex_byte_def)
  from hi have "unat (drop_bit 4 v) = unat (drop_bit 4 w)"
    by (rule hextable_nth_inj [OF nibble_bounds(1) nibble_bounds(1)])
  then have d: "drop_bit 4 v = drop_bit 4 w" by (simp only: word_unat_eq_iff)
  from lo have "unat (v AND 0x0f) = unat (w AND 0x0f)"
    by (rule hextable_nth_inj [OF nibble_bounds(2) nibble_bounds(2)])
  then have "v AND 0x0f = w AND 0x0f" by (simp only: word_unat_eq_iff)
  moreover have "\<And>u::byte. u AND 0x0f = take_bit 4 u"
    by (simp add: take_bit_eq_mask mask_eq_exp_minus_1)
  ultimately have t: "take_bit 4 v = take_bit 4 w" by simp
  have "v = push_bit 4 (drop_bit 4 v) + take_bit 4 v" by (simp only: bits_ident)
  also have "\<dots> = push_bit 4 (drop_bit 4 w) + take_bit 4 w" by (simp only: d t)
  also have "\<dots> = w" by (simp only: bits_ident)
  finally show ?thesis .
qed

lemma hex_EncodeToString_inj:
  "hex_EncodeToString a = hex_EncodeToString b \<Longrightarrow> a = b"
proof (induction a arbitrary: b)
  case Nil
  then show ?case
    by (cases b) (simp_all add: hex_EncodeToString_def hex_byte_def)
next
  case (Cons v a)
  show ?case
  proof (cases b)
    case Nil
    with Cons.prems show ?thesis
      by (simp add: hex_EncodeToString_def hex_byte_def)
  next
    case (Cons w b')
    have len: "length (hex_byte v) = length (hex_byte w)"
      by (simp add: hex_byte_def)
    from Cons.prems Cons
    have "hex_byte v @ hex_EncodeToString a = hex_byte w @ hex_EncodeToString b'"
      by (simp add: hex_EncodeToString_def)
    with len have hd: "hex_byte v = hex_byte w"
      and tl: "hex_EncodeToString a = hex_EncodeToString b'"
      by simp_all
    from hd have "v = w" by (rule hex_byte_inj)
    moreover from tl have "a = b'" by (rule Cons.IH)
    ultimately show ?thesis using Cons by simp
  qed
qed

lemma HMAC_unfold:
  "HMAC L key message =
     hex_EncodeToString
       (Sum256 L (opad (hmac_New L key) @ Sum256 L (ipad (hmac_New L key) @ message)))"
  by (simp add: HMAC_def hmac_Sum_def hmac_Write_def hmac_New_def Let_def sha256_New_def
      hash_Write_def hash_Sum_def)

lemma hmac_New_pads:
  "ipad (hmac_New L key) = map (\<lambda>b. b XOR 0x36) (key_block L key)"
  "opad (hmac_New L key) = map (\<lambda>b. b XOR 0x5c) (key_block L key)"
  by (simp_all add: hmac_New_def key_block_def Let_def sha256_New_def hash_Write_def
      hash_Sum_def)

lemma length_key_block: "length (key_block L key) = sha256_BlockSize"
  by (simp add: key_block_def Let_def)

lemma map_xor_inj:
  fixes c :: byte
  shows "map (\<lambda>b. b XOR c) xs = map (\<lambda>b. b XOR c) ys \<Longrightarrow> xs = ys"
proof -
  have "inj (\<lambda>b::byte. b XOR c)"
  proof (rule injI)
    fix x y :: byte
    assume "x XOR c = y XOR c"
    then have "(x XOR c) XOR c = (y XOR c) XOR c" by simp
    then show "x = y" by (simp add: xor.assoc)
  qed
  then show "map (\<lambda>b. b XOR c) xs = map (\<lambda>b. b XOR c) ys \<Longrightarrow> xs = ys"
    by (simp add: inj_map_eq_map)
qed

lemma key_block_inj:
  assumes size: "\<forall>x. length (Sum256 L x) = sha256_Size"
    and len: "length key' = length key"
    and eq: "key_block L key' = key_block L key"
  shows "if length key > sha256_BlockSize then Sum256 L key' = Sum256 L key else key' = key"
proof (cases "length key > sha256_BlockSize")
  case True
  have l: "length (Sum256 L key') = 32" "length (Sum256 L key) = 32"
    using size by (simp_all add: sha256_Size_def)
  from eq True len l have "Sum256 L key' = Sum256 L key"
    by (simp add: key_block_def sha256_BlockSize_def)
  with True show ?thesis by simp
next
  case False
  with eq len have "key' = key"
    by (simp add: key_block_def sha256_BlockSize_def)
  with False show ?thesis by simp
qed

lemma HMAC_injective:
  assumes size: "\<forall>x. length (Sum256 L x) = sha256_Size"
    and cf: "collision_free L (hmac_digested L key message @ hmac_digested L key' message')"
    and len: "length key' = length key"
    and eq: "HMAC L key' message' = HMAC L key message"
  shows "key' = key \<and> message' = message"
proof -
  let ?i = "ipad (hmac_New L key)" and ?o = "opad (hmac_New L key)"
  let ?i' = "ipad (hmac_New L key')" and ?o' = "opad (hmac_New L key')"
  let ?all = "hmac_digested L key message @ hmac_digested L key' message'"
  have nc: "\<And>x y. x \<in> set ?all \<Longrightarrow> y \<in> set ?all \<Longrightarrow> Sum256 L x = Sum256 L y \<Longrightarrow> x = y"
    using cf unfolding collision_free_def by blast
  have mem: "?o @ Sum256 L (?i @ message) \<in> set ?all" "?o' @ Sum256 L (?i' @ message') \<in> set ?all"
    "?i @ message \<in> set ?all" "?i' @ message' \<in> set ?all"
    by (simp_all add: hmac_digested_def Let_def)
  have lens: "length ?o = 64" "length ?o' = 64" "length ?i = 64" "length ?i' = 64"
    by (simp_all add: hmac_New_pads length_key_block sha256_BlockSize_def)
  from eq have "Sum256 L (?o' @ Sum256 L (?i' @ message')) = Sum256 L (?o @ Sum256 L (?i @ message))"
    unfolding HMAC_unfold by (rule hex_EncodeToString_inj)
  then have "?o' @ Sum256 L (?i' @ message') = ?o @ Sum256 L (?i @ message)"
    by (rule nc [OF mem(2) mem(1)])
  with lens have outer: "?o' = ?o" and "Sum256 L (?i' @ message') = Sum256 L (?i @ message)"
    by simp_all
  from this(2) have "?i' @ message' = ?i @ message"
    by (rule nc [OF mem(4) mem(3)])
  with lens have msg: "message' = message" by simp
  from outer have "key_block L key' = key_block L key"
    unfolding hmac_New_pads by (rule map_xor_inj)
  with size len
  have kb: "if length key > sha256_BlockSize then Sum256 L key' = Sum256 L key else key' = key"
    by (rule key_block_inj)
  have "key' = key"
  proof (cases "length key > sha256_BlockSize")
    case True
    with len have k: "key \<in> set ?all" "key' \<in> set ?all"
      by (simp_all add: hmac_digested_def Let_def)
    from kb True have "Sum256 L key' = Sum256 L key" by simp
    then show ?thesis by (rule nc [OF k(2) k(1)])
  next
    case False
    with kb show ?thesis by simp
  qed
  with msg show ?thesis by simp
qed

lemma length_flip_bit: "length (flip_bit n bs) = length bs"
  by (simp add: flip_bit_def)

lemma flip_bit_neq:
  assumes "n < 8 * length bs"
  shows "flip_bit n bs \<noteq> bs"
proof
  assume eq: "flip_bit n bs = bs"
  from assms have i: "n div 8 < length bs" by simp
  have "flip_bit n bs ! (n div 8) = bs ! (n div 8) XOR push_bit (n mod 8) 1"
    using i by (simp add: flip_bit_def)
  with eq have h: "bs ! (n div 8) XOR push_bit (n mod 8) 1 = bs ! (n div 8)"
    by (simp only:)
  have "(push_bit (n mod 8) 1 :: byte) =
        bs ! (n div 8) XOR (bs ! (n div 8) XOR push_bit (n mod 8) 1)"
    by (simp add: xor.assoc [symmetric])
  also have "\<dots> = bs ! (n div 8) XOR bs ! (n div 8)" by (simp only: h)
  also have "\<dots> = 0" by simp
  finally have "(2::byte) ^ (n mod 8) = 0" by (simp only: push_bit_of_1)
  then show False by (simp add: exp_eq_zero_iff)
qed

lemma bytes_flip_bit_string: "bytes (flip_bit_string n s) = flip_bit n (bytes s)"
proof -
  have "(of_char (char_of (unat b)) :: byte) = b" for b :: byte
  proof -
    have "(of_char (char_of (unat b)) :: byte) = of_nat (of_char (char_of (unat b)))"
      by (simp only: of_nat_of_char)
    also have "\<dots> = of_nat (unat b mod 256)" by (simp only: of_char_of)
    also have "\<dots> = b"
      using unsigned_less[of b, where ?'a = nat] by simp
    finally show ?thesis .
  qed
  then show ?thesis
    by (simp add: flip_bit_string_def bytes_def map_idI)
qed

lemma flip_bit_string_neq:
  assumes "n < 8 * length s"
  shows "flip_bit_string n s \<noteq> s"
proof
  assume "flip_bit_string n s = s"
  then have "flip_bit n (bytes s) = bytes s"
    by (simp add: bytes_flip_bit_string [symmetric])
  moreover from assms have "n < 8 * length (bytes s)" by (simp add: bytes_def)
  ultimately show False using flip_bit_neq by blast
qed

lemma length_HMAC_sized:
  "\<forall>x. length (Sum256 L x) = sha256_Size \<Longrightarrow> length (HMAC L key message) = 64"
  by (simp add: HMAC_unfold length_hex_EncodeToString sha256_Size_def)

text \<open>
  C4.  Verifying the signature that \<open>HMAC\<close> computes for a key and a message succeeds, and
  every signature that differs from it is refused, in particular the signature with one
  bit flipped.  With one bit of the key or of the message flipped the signature is refused
  as well, provided that SHA-256 has no collision among the byte strings that the two
  computations of the HMAC digest (digests are 32 bytes long).
\<close>

theorem VerifyHMAC_roundtrip:
  "VerifyHMAC L key message (HMAC L key message)
   \<and> (\<forall>signature. signature \<noteq> HMAC L key message \<longrightarrow> \<not> VerifyHMAC L key message signature)
   \<and> (i < 8 * length (HMAC L key message) \<longrightarrow>
        \<not> VerifyHMAC L key message (flip_bit_string i (HMAC L key message)))
   \<and> ((\<forall>x. length (Sum256 L x) = sha256_Size) \<and> j < 8 * length key
        \<and> collision_free L (hmac_digested L key message @ hmac_digested L (flip_bit j key) message)
        \<longrightarrow> \<not> VerifyHMAC L (flip_bit j key) message (HMAC L key message))
   \<and> ((\<forall>x. length (Sum256 L x) = sha256_Size) \<and> k < 8 * length message
        \<and> collision_free L (hmac_digested L key message @ hmac_digested L key (flip_bit k message))
        \<longrightarrow> \<not> VerifyHMAC L key (flip_bit k message) (HMAC L key message))"
proof -
  have verify: "VerifyHMAC L key' message' signature \<longleftrightarrow> signature = HMAC L key' message'"
    for key' message' signature
    by (auto simp: VerifyHMAC_def Let_def hmac_Equal_iff bytes_eq_iff)
  have sig: "\<not> VerifyHMAC L key message (flip_bit_string i (HMAC L key message))"
    if "i < 8 * length (HMAC L key message)"
    using flip_bit_string_neq [OF that] by (simp add: verify)
  have keyflip: "\<not> VerifyHMAC L (flip_bit j key) message (HMAC L key message)"
    if h: "(\<forall>x. length (Sum256 L x) = sha256_Size) \<and> j < 8 * length key
        \<and> collision_free L (hmac_digested L key message @ hmac_digested L (flip_bit j key) message)"
  proof
    assume "VerifyHMAC L (flip_bit j key) message (HMAC L key message)"
    then have "HMAC L (flip_bit j key) message = HMAC L key message"
      by (simp add: verify)
    with h have "flip_bit j key = key"
      using HMAC_injective [of L key message "flip_bit j key" message]
      by (simp add: length_flip_bit)
    with h flip_bit_neq show False by blast
  qed
  have msgflip: "\<not> VerifyHMAC L key (flip_bit k message) (HMAC L key message)"
    if h: "(\<forall>x. length (Sum256 L x) = sha256_Size) \<and> k < 8 * length message
        \<and> collision_free L (hmac_digested L key message @ hmac_digested L key (flip_bit k message))"
  proof
    assume "VerifyHMAC L key (flip_bit k message) (HMAC L key message)"
    then have "HMAC L key (flip_bit k message) = HMAC L key message"
      by (simp add: verify)
    with h have "flip_bit k message = message"
      using HMAC_injective [of L key message key "flip_bit k message"]
      by simp
    with h flip_bit_neq show False by blast
  qed
  from sig keyflip msgflip show ?thesis
    by (simp add: verify)
qed

lemma example_lib_sized: "\<forall>x. length (Sum256 example_lib x) = sha256_Size"
  by (simp add: example_lib_def sha256_Size_def)

lemma example_flips:
  "flip_bit 0 (bytes ''key'') = bytes ''jey''" "flip_bit 0 (bytes ''msg'') = bytes ''lsg''"
  by (simp_all add: flip_bit_def bytes_def)

lemma example_collision_free:
  "collision_free example_lib (hmac_digested example_lib (bytes ''key'') (bytes ''msg'')
                               @ hmac_digested example_lib (bytes ''jey'') (bytes ''msg''))"
  "collision_free example_lib (hmac_digested example_lib (bytes ''key'') (bytes ''msg'')
                               @ hmac_digested example_lib (bytes ''key'') (bytes ''lsg''))"
  by code_simp+

text \<open>
  The key \<open>key\<close> and the message \<open>msg\<close>: the signature \<open>0\<close>, the signature with its
  first bit flipped, the key with its first bit flipped (\<open>jey\<close>) and the message with its
  first bit flipped (\<open>lsg\<close>) are all refused.
\<close>

theorem VerifyHMAC_roundtrip_witness:
  "VerifyHMAC example_lib (bytes ''key'') (bytes ''msg'')
     (HMAC example_lib (bytes ''key'') (bytes ''msg''))
   \<and> ''0'' \<noteq> HMAC example_lib (bytes ''key'') (bytes ''msg'')
   \<and> \<not> VerifyHMAC example_lib (bytes ''key'') (bytes ''msg'') ''0''
   \<and> \<not> VerifyHMAC example_lib (bytes ''key'') (bytes ''msg'')
         (flip_bit_string 0 (HMAC example_lib (bytes ''key'') (bytes ''msg'')))
   \<and> \<not> VerifyHMAC example_lib (bytes ''jey'') (bytes ''msg'')
         (HMAC example_lib (bytes ''key'') (bytes ''msg''))
   \<and> \<not> VerifyHMAC example_lib (bytes ''key'') (bytes ''lsg'')
         (HMAC example_lib (bytes ''key'') (bytes ''msg''))"
proof -
  let ?mac = "HMAC example_lib (bytes ''key'') (bytes ''msg'')"
  have len: "length ?mac = 64"
    using example_lib_sized by (rule length_HMAC_sized)
  then have "length ?mac \<noteq> length ''0''" by simp
  then have ne: "''0'' \<noteq> ?mac"
    by (metis length_Cons list.size(3))
  have keylen: "(0::nat) < 8 * length (bytes ''key'')" "(0::nat) < 8 * length (bytes ''msg'')"
    by (simp_all add: bytes_def)
  note th = VerifyHMAC_roundtrip [of example_lib "bytes ''key''" "bytes ''msg''" 0 0 0,
      unfolded example_flips]
  from th ne len keylen example_lib_sized example_collision_free show ?thesis
    by simp
qed

section \<open>Properties of the tier order\<close>

lemma tier_rank_values:
  "tier_rank RiskTierCaution = 1"
  "tier_rank RiskTierDangerous = 2"
  "tier_rank RiskTierCritical = 3"
  by (simp_all add: tier_rank_def RiskTierCaution_def RiskTierDangerous_def
      RiskTierCritical_def)

lemma tier_distinct:
  "RiskTierCaution \<noteq> RiskTierDangerous"
  "RiskTierCaution \<noteq> RiskTierCritical"
  "RiskTierDangerous \<noteq> RiskTierCritical"
  by (simp_all add: RiskTierCaution_def RiskTierDangerous_def RiskTierCritical_def)

text \<open>
  C5.  On the three tiers \<open>caution\<close>, \<open>dangerous\<close>, \<open>critical\<close>, \<open>tierHigher\<close> is a
  strict total order with \<open>caution < dangerous < critical\<close>: it is irreflexive and
  transitive, of two distinct tiers exactly one is higher than the other, and
  \<open>tierHigher a b\<close> holds exactly for the pairs (dangerous, caution), (critical, caution)
  and (critical, dangerous).
\<close>

theorem tierHigher_strict_total_order:
  "(\<forall>x \<in> {RiskTierCaution, RiskTierDangerous, RiskTierCritical}. \<not> tierHigher x x)
   \<and> (\<forall>a \<in> {RiskTierCaution, RiskTierDangerous, RiskTierCritical}.
       \<forall>b \<in> {RiskTierCaution, RiskTierDangerous, RiskTierCritical}.
         (a \<noteq> b \<longrightarrow> (tierHigher a b \<noteq> tierHigher b a))
         \<and> (tierHigher a b \<longleftrightarrow>
              (a, b) \<in> {(RiskTierDangerous, RiskTierCaution),
                         (RiskTierCritical, RiskTierCaution),
                         (RiskTierCritical, RiskTierDangerous)}))
   \<and> (\<forall>a \<in> {RiskTierCaution, RiskTierDangerous, RiskTierCritical}.
       \<forall>b \<in> {RiskTierCaution, RiskTierDangerous, RiskTierCritical}.
       \<forall>c \<in> {RiskTierCaution, RiskTierDangerous, RiskTierCritical}.
         tierHigher a b \<and> tierHigher b c \<longrightarrow> tierHigher a c)"
  using tier_distinct by (simp add: tierHigher_def tier_rank_values)

theorem tierHigher_strict_total_order_witness:
  "RiskTierDangerous \<in> {RiskTierCaution, RiskTierDangerous, RiskTierCritical}
   \<and> RiskTierCaution \<in> {RiskTierCaution, RiskTierDangerous, RiskTierCritical}
   \<and> RiskTierDangerous \<noteq> RiskTierCaution
   \<and> tierHigher RiskTierDangerous RiskTierCaution
   \<and> \<not> tierHigher RiskTierCaution RiskTierDangerous
   \<and> \<not> tierHigher RiskTierDangerous RiskTierDangerous"
proof -
  let ?T = "{RiskTierCaution, RiskTierDangerous, RiskTierCritical}"
  have d: "RiskTierDangerous \<in> ?T" and c: "RiskTierCaution \<in> ?T"
    by simp_all
  have ne: "RiskTierDangerous \<noteq> RiskTierCaution"
    using tier_distinct(1) by (rule not_sym)
  note order = tierHigher_strict_total_order
  have irrefl: "\<not> tierHigher RiskTierDangerous RiskTierDangerous"
    by (rule bspec [OF conjunct1 [OF order] d])
  have pair: "(RiskTierDangerous \<noteq> RiskTierCaution \<longrightarrow>
        tierHigher RiskTierDangerous RiskTierCaution \<noteq> tierHigher RiskTierCaution RiskTierDangerous)
      \<and> (tierHigher RiskTierDangerous RiskTierCaution \<longleftrightarrow>
          (RiskTierDangerous, RiskTierCaution) \<in> {(RiskTierDangerous, RiskTierCaution),
             (RiskTierCritical, RiskTierCaution), (RiskTierCritical, RiskTierDangerous)})"
    by (rule bspec [OF bspec [OF conjunct1 [OF conjunct2 [OF order]] d] c])
  from pair have higher: "tierHigher RiskTierDangerous RiskTierCaution"
    by simp
  from pair ne higher have "\<not> tierHigher RiskTierCaution RiskTierDangerous"
    by simp
  with d c ne higher irrefl show ?thesis
    by blast
qed

section \<open>Properties of the run command\<close>







lemma find_set_status:
  "find (\<lambda>r. ID r = rid) (map (\<lambda>q. if ID q = rid then q\<lparr>Status := new\<rparr> else q) db) =
     map_option (\<lambda>q. q\<lparr>Status := new\<rparr>) (find (\<lambda>r. ID r = rid) db)"
  by (induction db) simp_all




lemma RunE_created:
  assumes "flagSessionID E \<noteq> []" "projectPath E = Inr project" "config_Load E = Inr cfg"
    "db_OpenAndMigrate E = None" "CollectAttachments E (attachment_flags E) = Inr atts"
    "CreateRequest E cfg (database E)
       (create_options E command (getwd_or E project) project atts) = (Inr result, db)"
  shows "RunE L E command =
     (if Skipped result then runSafeCommand L E db command (getwd_or E project) project
      else (case Request result of
            None \<Rightarrow> \<lparr>exit = Panic, events = [], final_store = db, ran = []\<rparr>
          | Some request \<Rightarrow>
              if flagRunYield E \<and> Status request = StatusPending then
                (let (evs, err) = Writer_Write (GetOutput E) (yield_response request)
                 in \<lparr>exit = Return err, events = evs, final_store = db, ran = []\<rparr>)
              else waitForApproval E db cfg project command request))"
  using assms by (simp add: RunE_def Let_def)





lemma Duration_times_Second_1: "Duration_times_Second 1 = 1000000000"
  by (simp add: Duration_times_Second_def Second_def)




lemma example_env_clock:
  "time_Now example_env = 0" "deadline_of example_env = 1000000000"
  "clock_at example_env (Suc 0) = 500000000"
  by (simp_all add: deadline_of_def Duration_times_Second_1 example_env_def Millisecond_def)









lemma RequestCreator_CreateRequest_safe:
  assumes "validate_session C db (SessionID_opt opts) = None"
    and "rate_limit C db (SessionID_opt opts) = None"
    and "classify C \<lparr>Raw = Command_opt opts, Cwd = Cwd_opt opts, Shell = Shell_opt opts,
           Argv = None,
           Hash = ComputeCommandHash L \<lparr>Raw = Command_opt opts, Cwd = Cwd_opt opts,
                    Shell = Shell_opt opts, Argv = None, Hash = []\<rparr>\<rparr> = RiskTierSafe"
  shows "RequestCreator_CreateRequest L C cfg db opts =
           (Inr \<lparr>Skipped = True, Request = None\<rparr>, db)"
  using assms by (simp add: RequestCreator_CreateRequest_def Let_def)

text \<open>
  C6 (as amended).  A run that reaches the request creator (the session id is given; the
  project, the configuration, the store and the attachments are obtained), whose session
  and rate-limit checks pass, whose command the pattern engine classifies as safe and
  whose log file can be created: request creation returns \<open>skipped = true\<close> and leaves
  the store as it was, and so does the run (no request is persisted); the run executes the
  command once, directly, as a shell command in the working directory with its computed
  hash; it exits with status 1 when the runner reports an error, else with the exit code
  of the command when that is not zero, else it returns normally.  In JSON mode it prints
  one response, with status \<open>executed\<close>, tier \<open>safe\<close>, \<open>skipped_approval\<close> true and
  the exit code of the command (0 when the runner returns no result); in any other mode
  it prints no response, only a line on standard error when the runner reports an error
  or the exit code is not zero.
\<close>

theorem RunE_safe_command:
  assumes "flagSessionID E \<noteq> []" "projectPath E = Inr project" "config_Load E = Inr cfg"
    "db_OpenAndMigrate E = None" "CollectAttachments E (attachment_flags E) = Inr atts"
    "CreateRequest E = RequestCreator_CreateRequest L C"
    "validate_session C (database E) (flagSessionID E) = None"
    "rate_limit C (database E) (flagSessionID E) = None"
    "spec = \<lparr>Raw = command, Cwd = getwd_or E project, Shell = True, Argv = None,
             Hash = ComputeCommandHash L \<lparr>Raw = command, Cwd = getwd_or E project, Shell = True,
                                             Argv = None, Hash = []\<rparr>\<rparr>"
    "classify C spec = RiskTierSafe"
    "createRunLogFile E project ''safe'' = Inr logPath"
    "RunCommand E spec logPath (GetOutput E \<noteq> ''json'') = (res, execErr)"
    "exitCode = (case res of None \<Rightarrow> 0 | Some r \<Rightarrow> ExitCode r)"
  shows "CreateRequest E cfg (database E)
           (create_options E command (getwd_or E project) project atts) =
         (Inr \<lparr>Skipped = True, Request = None\<rparr>, database E)
     \<and> final_store (RunE L E command) = database E
     \<and> ran (RunE L E command) = [(spec, logPath)]
     \<and> exit (RunE L E command) =
         (if execErr \<noteq> None then Exit 1 else if exitCode \<noteq> 0 then Exit exitCode
          else Return None)
     \<and> (GetOutput E = ''json'' \<longrightarrow>
          (\<exists>resp. events (RunE L E command) = [StdoutJSON resp]
             \<and> resp ''status'' = Some (AString ''executed'')
             \<and> resp ''tier'' = Some (AString ''safe'')
             \<and> resp ''skipped_approval'' = Some (ABool True)
             \<and> resp ''exit_code'' = Some (AInt exitCode)))
     \<and> (GetOutput E \<noteq> ''json'' \<longrightarrow>
          events (RunE L E command) =
            (case execErr of
               Some e \<Rightarrow> [Stderr (''[slb] Execution failed: '' @ e)]
             | None \<Rightarrow> if exitCode \<noteq> 0
                        then [Stderr (CHR 0x0A # ''[slb] Command exited with code ''
                                      @ format_d exitCode)]
                        else []))"
proof -
  let ?opts = "create_options E command (getwd_or E project) project atts"
  have created: "CreateRequest E cfg (database E) ?opts =
      (Inr \<lparr>Skipped = True, Request = None\<rparr>, database E)"
    unfolding assms(6)
    using assms(7,8,10) unfolding assms(9)
    by (intro RequestCreator_CreateRequest_safe) (simp_all add: create_options_def)
  have run: "RunE L E command =
      runSafeCommand L E (database E) command (getwd_or E project) project"
    unfolding RunE_created [OF assms(1-5) created] by simp
  show ?thesis
  proof (cases "GetOutput E = ''json''")
    case True
    with assms(9,12) have cmd: "RunCommand E \<lparr>Raw = command, Cwd = getwd_or E project, Shell = True,
        Argv = None, Hash = ComputeCommandHash L \<lparr>Raw = command, Cwd = getwd_or E project,
          Shell = True, Argv = None, Hash = []\<rparr>\<rparr> logPath False = (res, execErr)"
      by simp
    show ?thesis
      unfolding run runSafeCommand_def
      using True cmd assms(9,11,13) created
      by (cases execErr) (simp_all add: Let_def Writer_Write_def FormatJSON_def exit_after_def)
  next
    case False
    with assms(9,12) have cmd: "RunCommand E \<lparr>Raw = command, Cwd = getwd_or E project, Shell = True,
        Argv = None, Hash = ComputeCommandHash L \<lparr>Raw = command, Cwd = getwd_or E project,
          Shell = True, Argv = None, Hash = []\<rparr>\<rparr> logPath True = (res, execErr)"
      by simp
    show ?thesis
      unfolding run runSafeCommand_def
      using False cmd assms(9,11,13) created
      by (cases execErr) (simp_all add: Let_def exit_after_def)
  qed
qed

text \<open>
  The claim C6 as stated fails on runs of \<open>echo hi\<close>, which the pattern engine of the
  example classifies as safe.  When the log directory cannot be created the run answers
  \<open>log_create_failed\<close> and executes nothing; in text mode the command is executed but no
  response is printed.  Nothing is executed either when the session id is missing, when
  the project, the configuration, the store or the attachments cannot be obtained, when
  the creator does not know the session, or when the rate limiter rejects the request.
\<close>

theorem RunE_safe_command_counterexample:
  "classify example_creator example_safe_spec = RiskTierSafe
   \<and> events (RunE example_lib example_env_nolog ''echo hi'') =
       [StdoutJSON [''status'' \<mapsto> AString ''log_create_failed'',
                    ''command'' \<mapsto> AString ''echo hi'',
                    ''error'' \<mapsto> AString ''creating log dir: permission denied'']]
   \<and> exit (RunE example_lib example_env_nolog ''echo hi'') = Exit 1
   \<and> ran (RunE example_lib example_env_nolog ''echo hi'') = []
   \<and> events (RunE example_lib example_env_text ''echo hi'') = []
   \<and> exit (RunE example_lib example_env_text ''echo hi'') = Return None
   \<and> ran (RunE example_lib example_env_text ''echo hi'') =
       [(example_safe_spec, ''/p/.slb/logs/20260101-000000_safe.log'')]
   \<and> exit (RunE example_lib (example_env_safe\<lparr>flagSessionID := []\<rparr>) ''echo hi'') =
       Return (Some ''--session-id is required'')
   \<and> ran (RunE example_lib (example_env_safe\<lparr>flagSessionID := []\<rparr>) ''echo hi'') = []
   \<and> exit (RunE example_lib (example_env_safe\<lparr>projectPath := Inl ''no project''\<rparr>) ''echo hi'') =
       Return (Some ''no project'')
   \<and> ran (RunE example_lib (example_env_safe\<lparr>projectPath := Inl ''no project''\<rparr>) ''echo hi'') = []
   \<and> exit (RunE example_lib (example_env_safe\<lparr>config_Load := Inl ''no file''\<rparr>) ''echo hi'') =
       Return (Some ''loading config: no file'')
   \<and> ran (RunE example_lib (example_env_safe\<lparr>config_Load := Inl ''no file''\<rparr>) ''echo hi'') = []
   \<and> exit (RunE example_lib (example_env_safe\<lparr>db_OpenAndMigrate := Some ''locked''\<rparr>) ''echo hi'') =
       Return (Some ''opening database: locked'')
   \<and> ran (RunE example_lib (example_env_safe\<lparr>db_OpenAndMigrate := Some ''locked''\<rparr>) ''echo hi'') = []
   \<and> events (RunE example_lib example_env_noattach ''echo hi'') =
       [StdoutJSON [''status'' \<mapsto> AString ''attachment_error'',
                    ''command'' \<mapsto> AString ''echo hi'',
                    ''error'' \<mapsto> AString ''attachment not found'']]
   \<and> ran (RunE example_lib example_env_noattach ''echo hi'') = []
   \<and> events (RunE example_lib (example_env_safe\<lparr>flagSessionID := ''S2''\<rparr>) ''echo hi'') =
       [StdoutJSON [''status'' \<mapsto> AString ''request_failed'',
                    ''command'' \<mapsto> AString ''echo hi'',
                    ''error'' \<mapsto> AString ''session not found'']]
   \<and> ran (RunE example_lib (example_env_safe\<lparr>flagSessionID := ''S2''\<rparr>) ''echo hi'') = []
   \<and> events (RunE example_lib (example_env_safe\<lparr>database := [example_request]\<rparr>) ''echo hi'') =
       [StdoutJSON [''status'' \<mapsto> AString ''request_failed'',
                    ''command'' \<mapsto> AString ''echo hi'',
                    ''error'' \<mapsto> AString ''rate limit exceeded: 1/1 pending'']]
   \<and> ran (RunE example_lib (example_env_safe\<lparr>database := [example_request]\<rparr>) ''echo hi'') = []"
  by (simp add: RunE_def example_env_nolog_def example_env_text_def example_env_noattach_def
      example_env_safe_def example_env_def example_cfg_def example_creator_def
      example_safe_spec_def example_request_def StatusPending_def
      RequestCreator_CreateRequest_def returned_def
      runSafeCommand_def createRunLogFile_def writeError_def Writer_Write_def FormatJSON_def
      create_options_def attachment_flags_def getwd_or_def exit_after_def Let_def)

lemma example_env_safe_reach:
  "flagSessionID example_env_safe \<noteq> []" "projectPath example_env_safe = Inr ''/p''"
  "config_Load example_env_safe = Inr example_cfg" "db_OpenAndMigrate example_env_safe = None"
  "CollectAttachments example_env_safe (attachment_flags example_env_safe) = Inr []"
  "CreateRequest example_env_safe = RequestCreator_CreateRequest example_lib example_creator"
  "validate_session example_creator (database example_env_safe) (flagSessionID example_env_safe)
     = None"
  "rate_limit example_creator (database example_env_safe) (flagSessionID example_env_safe) = None"
  "example_safe_spec =
     \<lparr>Raw = ''echo hi'', Cwd = getwd_or example_env_safe ''/p'', Shell = True, Argv = None,
      Hash = ComputeCommandHash example_lib
               \<lparr>Raw = ''echo hi'', Cwd = getwd_or example_env_safe ''/p'', Shell = True,
                Argv = None, Hash = []\<rparr>\<rparr>"
  "classify example_creator example_safe_spec = RiskTierSafe"
  "createRunLogFile example_env_safe ''/p'' ''safe'' = Inr ''/p/.slb/logs/20260101-000000_safe.log''"
  "RunCommand example_env_safe spec logPath streaming =
     (Some \<lparr>ExitCode = 0, Duration = 2000000, Output = ''hi''\<rparr>, None)"
  "GetOutput example_env_safe = ''json''" "database example_env_safe = []"
  by (simp_all add: example_env_safe_def example_env_def example_creator_def
      example_safe_spec_def getwd_or_def createRunLogFile_def)

lemma example_env_code3_reach:
  "flagSessionID example_env_code3 \<noteq> []" "projectPath example_env_code3 = Inr ''/p''"
  "config_Load example_env_code3 = Inr example_cfg" "db_OpenAndMigrate example_env_code3 = None"
  "CollectAttachments example_env_code3 (attachment_flags example_env_code3) = Inr []"
  "CreateRequest example_env_code3 = RequestCreator_CreateRequest example_lib example_creator"
  "validate_session example_creator (database example_env_code3)
     (flagSessionID example_env_code3) = None"
  "rate_limit example_creator (database example_env_code3) (flagSessionID example_env_code3)
     = None"
  "example_safe_spec =
     \<lparr>Raw = ''echo hi'', Cwd = getwd_or example_env_code3 ''/p'', Shell = True, Argv = None,
      Hash = ComputeCommandHash example_lib
               \<lparr>Raw = ''echo hi'', Cwd = getwd_or example_env_code3 ''/p'', Shell = True,
                Argv = None, Hash = []\<rparr>\<rparr>"
  "classify example_creator example_safe_spec = RiskTierSafe"
  "createRunLogFile example_env_code3 ''/p'' ''safe'' =
     Inr ''/p/.slb/logs/20260101-000000_safe.log''"
  "RunCommand example_env_code3 spec logPath streaming =
     (Some \<lparr>ExitCode = 3, Duration = 2000000, Output = []\<rparr>, None)"
  "GetOutput example_env_code3 = ''text''" "database example_env_code3 = []"
  by (simp_all add: example_env_code3_def example_env_text_def example_env_safe_def
      example_env_def example_creator_def example_safe_spec_def getwd_or_def
      createRunLogFile_def)

lemma format_d_3: "format_d 3 = ''3''"
  by (simp add: format_d_def decimal.simps [of 3])

text \<open>
  The run of \<open>echo hi\<close> in JSON mode, and the same run in text mode when the command
  exits with code 3.
\<close>

theorem RunE_safe_command_witness:
  "classify example_creator example_safe_spec = RiskTierSafe
   \<and> CreateRequest example_env_safe example_cfg []
         (create_options example_env_safe ''echo hi'' ''/p'' ''/p'' []) =
       (Inr \<lparr>Skipped = True, Request = None\<rparr>, [])
   \<and> final_store (RunE example_lib example_env_safe ''echo hi'') = []
   \<and> ran (RunE example_lib example_env_safe ''echo hi'') =
       [(example_safe_spec, ''/p/.slb/logs/20260101-000000_safe.log'')]
   \<and> exit (RunE example_lib example_env_safe ''echo hi'') = Return None
   \<and> (\<exists>resp. events (RunE example_lib example_env_safe ''echo hi'') = [StdoutJSON resp]
         \<and> resp ''status'' = Some (AString ''executed'')
         \<and> resp ''tier'' = Some (AString ''safe'')
         \<and> resp ''skipped_approval'' = Some (ABool True)
         \<and> resp ''exit_code'' = Some (AInt 0))
   \<and> final_store (RunE example_lib example_env_code3 ''echo hi'') = []
   \<and> ran (RunE example_lib example_env_code3 ''echo hi'') =
       [(example_safe_spec, ''/p/.slb/logs/20260101-000000_safe.log'')]
   \<and> exit (RunE example_lib example_env_code3 ''echo hi'') = Exit 3
   \<and> events (RunE example_lib example_env_code3 ''echo hi'') =
       [Stderr (CHR 0x0A # ''[slb] Command exited with code 3'')]"
proof -
  note in_json = RunE_safe_command [OF example_env_safe_reach(1-12) refl]
  note in_text = RunE_safe_command [OF example_env_code3_reach(1-12) refl]
  have wd: "getwd_or example_env_safe ''/p'' = ''/p''"
    by (simp add: getwd_or_def example_env_safe_def example_env_def)
  from in_json have j: "CreateRequest example_env_safe example_cfg []
         (create_options example_env_safe ''echo hi'' ''/p'' ''/p'' []) =
       (Inr \<lparr>Skipped = True, Request = None\<rparr>, [])
   \<and> final_store (RunE example_lib example_env_safe ''echo hi'') = []
   \<and> ran (RunE example_lib example_env_safe ''echo hi'') =
       [(example_safe_spec, ''/p/.slb/logs/20260101-000000_safe.log'')]
   \<and> exit (RunE example_lib example_env_safe ''echo hi'') = Return None
   \<and> (\<exists>resp. events (RunE example_lib example_env_safe ''echo hi'') = [StdoutJSON resp]
         \<and> resp ''status'' = Some (AString ''executed'')
         \<and> resp ''tier'' = Some (AString ''safe'')
         \<and> resp ''skipped_approval'' = Some (ABool True)
         \<and> resp ''exit_code'' = Some (AInt 0))"
    by (simp add: example_env_safe_reach(13,14) wd)
  from in_text have t: "final_store (RunE example_lib example_env_code3 ''echo hi'') = []
   \<and> ran (RunE example_lib example_env_code3 ''echo hi'') =
       [(example_safe_spec, ''/p/.slb/logs/20260101-000000_safe.log'')]
   \<and> exit (RunE example_lib example_env_code3 ''echo hi'') = Exit 3
   \<and> events (RunE example_lib example_env_code3 ''echo hi'') =
       [Stderr (CHR 0x0A # ''[slb] Command exited with code 3'')]"
    by (simp add: example_env_code3_reach(13,14) format_d_3)
  from j t example_env_safe_reach(10) show ?thesis by blast
qed

section \<open>Properties of the executor preflight\<close>

lemma UpdateRequestStatus_ok:
  assumes "status_of db rid = Some s" "(s, new) \<in> set transitions"
  shows "\<exists>d. UpdateRequestStatus db rid new = Inr d \<and> status_of d rid = Some new"
proof -
  from assms(1) obtain r where r: "find (\<lambda>r. ID r = rid) db = Some r" "Status r = s"
    by (auto simp: status_of_def GetRequest_def split: option.splits sum.splits)
  let ?f = "\<lambda>q. if ID q = rid then q\<lparr>Status := new\<rparr> else q"
  from r have found: "find (\<lambda>r. ID r = rid) (map ?f db) = Some (r\<lparr>Status := new\<rparr>)"
    by (simp add: find_set_status)
  then have st: "status_of (map ?f db) rid = Some new"
    by (simp add: status_of_def GetRequest_def)
  from r assms(2) have "UpdateRequestStatus db rid new = Inr (map ?f db)"
    by (simp add: UpdateRequestStatus_def)
  with st show ?thesis by blast
qed

lemma reasons_distinct:
  "distinct [[], reason_not_found, reason_already_executing, reason_already_executed,
     reason_not_approved, reason_expired, reason_integrity_violation]"
  by (simp add: reason_not_found_def reason_already_executing_def reason_already_executed_def
      reason_not_approved_def reason_expired_def reason_integrity_violation_def)

lemma approved_distinct:
  "StatusApproved \<noteq> StatusExecuting" "StatusApproved \<noteq> StatusExecuted"
  "StatusApproved \<noteq> StatusExecutionFailed"
  "StatusExecuting \<noteq> StatusExecuted" "StatusExecuting \<noteq> StatusExecutionFailed"
  "(StatusApproved, StatusApprovedExpired) \<in> set transitions"
  by (simp_all add: StatusApproved_def StatusExecuting_def StatusExecuted_def
      StatusExecutionFailed_def transitions_def)

lemma CanExecute_expired:
  assumes "GetRequest db rid = Inr r" "Status r = StatusApproved" "\<not> approval_live now r"
  shows "fst (CanExecute L db now rid) = (False, reason_expired)
     \<and> status_of (snd (CanExecute L db now rid)) rid = Some StatusApprovedExpired"
proof -
  from assms(1,2) have "status_of db rid = Some StatusApproved"
    by (simp add: status_of_def)
  then obtain d where d: "UpdateRequestStatus db rid StatusApprovedExpired = Inr d"
      "status_of d rid = Some StatusApprovedExpired"
    using UpdateRequestStatus_ok approved_distinct(6) by blast
  with assms show ?thesis
    by (simp add: CanExecute_def Let_def)
qed

text \<open>
  C3.  The preflight classifies a request id by the state of the request: a missing request
  gives the not-found reason; status \<open>executing\<close> the already-executing reason;
  \<open>executed\<close> or \<open>execution_failed\<close> the already-executed reason; every other status but
  \<open>approved\<close> (so \<open>pending\<close>) the not-approved reason; \<open>approved\<close> with an expiry
  time that is not after now the expired reason, and the request is moved to
  \<open>approved_expired\<close>; \<open>approved\<close>, not expired, with a stored hash different from the
  recomputed one the integrity reason.  The answer is \<open>(true, "")\<close> exactly when the
  request exists, is approved, expires after now and its stored hash is the recomputed
  hash.  The reasons are distinct and not empty.
\<close>

theorem CanExecute_preflight:
  "(GetRequest db rid = Inl e \<longrightarrow> CanExecute L db now rid = ((False, reason_not_found), db))
   \<and> (GetRequest db rid = Inr r \<longrightarrow>
        (Status r = StatusExecuting \<longrightarrow>
           CanExecute L db now rid = ((False, reason_already_executing), db))
      \<and> (Status r = StatusExecuted \<or> Status r = StatusExecutionFailed \<longrightarrow>
           CanExecute L db now rid = ((False, reason_already_executed), db))
      \<and> (Status r \<noteq> StatusApproved \<and> Status r \<noteq> StatusExecuting \<and> Status r \<noteq> StatusExecuted
           \<and> Status r \<noteq> StatusExecutionFailed \<longrightarrow>
           CanExecute L db now rid = ((False, reason_not_approved), db))
      \<and> (Status r = StatusApproved \<and> ApprovalExpiresAt r = Some t \<and> t \<le> now \<longrightarrow>
           fst (CanExecute L db now rid) = (False, reason_expired)
           \<and> status_of (snd (CanExecute L db now rid)) rid = Some StatusApprovedExpired)
      \<and> (Status r = StatusApproved \<and> ApprovalExpiresAt r = Some t \<and> now < t
           \<and> Hash (Command r) \<noteq> ComputeCommandHash L (Command r) \<longrightarrow>
           CanExecute L db now rid = ((False, reason_integrity_violation), db)))
   \<and> (fst (CanExecute L db now rid) = (True, []) \<longleftrightarrow>
        (\<exists>q u. GetRequest db rid = Inr q \<and> Status q = StatusApproved
           \<and> ApprovalExpiresAt q = Some u \<and> now < u
           \<and> Hash (Command q) = ComputeCommandHash L (Command q)))
   \<and> distinct [[], reason_not_found, reason_already_executing, reason_already_executed,
        reason_not_approved, reason_expired, reason_integrity_violation]"
proof (intro conjI impI)
  assume "GetRequest db rid = Inl e"
  then show "CanExecute L db now rid = ((False, reason_not_found), db)"
    by (simp add: CanExecute_def)
next
  assume "GetRequest db rid = Inr r" "Status r = StatusExecuting"
  then show "CanExecute L db now rid = ((False, reason_already_executing), db)"
    using approved_distinct by (simp add: CanExecute_def)
next
  assume "GetRequest db rid = Inr r" "Status r = StatusExecuted \<or> Status r = StatusExecutionFailed"
  then show "CanExecute L db now rid = ((False, reason_already_executed), db)"
    using approved_distinct by (auto simp: CanExecute_def)
next
  assume "GetRequest db rid = Inr r"
    "Status r \<noteq> StatusApproved \<and> Status r \<noteq> StatusExecuting \<and> Status r \<noteq> StatusExecuted
           \<and> Status r \<noteq> StatusExecutionFailed"
  then show "CanExecute L db now rid = ((False, reason_not_approved), db)"
    by (simp add: CanExecute_def)
next
  assume r: "GetRequest db rid = Inr r"
    and e: "Status r = StatusApproved \<and> ApprovalExpiresAt r = Some t \<and> t \<le> now"
  then have "\<not> approval_live now r" by (simp add: approval_live_def)
  with r e have both: "fst (CanExecute L db now rid) = (False, reason_expired)
     \<and> status_of (snd (CanExecute L db now rid)) rid = Some StatusApprovedExpired"
    by (simp add: CanExecute_expired)
  from both show "fst (CanExecute L db now rid) = (False, reason_expired)" by (rule conjunct1)
  from both show "status_of (snd (CanExecute L db now rid)) rid = Some StatusApprovedExpired"
    by (rule conjunct2)
next
  assume "GetRequest db rid = Inr r"
    "Status r = StatusApproved \<and> ApprovalExpiresAt r = Some t \<and> now < t
           \<and> Hash (Command r) \<noteq> ComputeCommandHash L (Command r)"
  then show "CanExecute L db now rid = ((False, reason_integrity_violation), db)"
    by (simp add: CanExecute_def approval_live_def)
next
  show "fst (CanExecute L db now rid) = (True, []) \<longleftrightarrow>
        (\<exists>q u. GetRequest db rid = Inr q \<and> Status q = StatusApproved
           \<and> ApprovalExpiresAt q = Some u \<and> now < u
           \<and> Hash (Command q) = ComputeCommandHash L (Command q))"
    by (auto simp: CanExecute_def approval_live_def Let_def split: sum.splits option.splits)
next
  show "distinct [[], reason_not_found, reason_already_executing, reason_already_executed,
        reason_not_approved, reason_expired, reason_integrity_violation]"
    by (rule reasons_distinct)
qed

section \<open>Properties of the retention of rollback captures\<close>

lemma strings_HasPrefix_iff: "strings_HasPrefix s p \<longleftrightarrow> (\<exists>rest. s = p @ rest)"
proof
  assume "strings_HasPrefix s p"
  then have "s = p @ drop (length p) s"
    by (metis append_take_drop_id strings_HasPrefix_def)
  then show "\<exists>rest. s = p @ rest" ..
next
  assume "\<exists>rest. s = p @ rest"
  then show "strings_HasPrefix s p" by (auto simp: strings_HasPrefix_def)
qed

lemma cleanup_entries_filter:
  "cleanup_entries cutoff es =
     filter (\<lambda>e. \<not> (IsDir e \<and> strings_HasPrefix (Name e) ''req-'' \<and> ModTime e < cutoff)) es"
  by (induction es) simp_all

text \<open>
  C9.  \<open>cleanupOldRollbackCaptures\<close> changes nothing when the retention is zero or less or
  when the root directory does not exist; otherwise it leaves the root with exactly its
  entries that are not a directory named \<open>req-...\<close> with a modification time before
  \<open>now - retention\<close>, in their order: those directories are deleted, and all files, all
  directories of other names and all recent \<open>req-\<close> directories stay.
\<close>

theorem cleanupOldRollbackCaptures_retention:
  "(retention \<le> 0 \<longrightarrow> cleanupOldRollbackCaptures root retention now = (None, root))
   \<and> cleanupOldRollbackCaptures None retention now = (None, None)
   \<and> (0 < retention \<longrightarrow>
        cleanupOldRollbackCaptures (Some entries) retention now =
          (None, Some (filter (\<lambda>e. \<not> (IsDir e \<and> (\<exists>rest. Name e = ''req-'' @ rest)
                                      \<and> ModTime e < now - retention)) entries)))"
  by (simp add: cleanupOldRollbackCaptures_def cleanup_entries_filter strings_HasPrefix_iff)


lemma example_approved_fields:
  "GetRequest [example_approved] ''req-1'' = Inr example_approved"
  "GetRequest [example_approved] ''nonexistent-id'' = Inl ''request not found''"
  "Status example_approved = StatusApproved"
  "ApprovalExpiresAt example_approved = Some 100"
  "Hash (Command example_approved) = ComputeCommandHash example_lib (Command example_approved)"
  by (simp_all add: example_approved_def example_request_def GetRequest_def
      ComputeCommandHash_def)

theorem CanExecute_preflight_witness:
  "GetRequest [example_approved] ''nonexistent-id'' = Inl ''request not found''
   \<and> CanExecute example_lib [example_approved] 50 ''nonexistent-id'' =
       ((False, reason_not_found), [example_approved])
   \<and> GetRequest [example_approved] ''req-1'' = Inr example_approved
   \<and> Status example_approved = StatusApproved
   \<and> ApprovalExpiresAt example_approved = Some 100
   \<and> fst (CanExecute example_lib [example_approved] 200 ''req-1'') = (False, reason_expired)
   \<and> status_of (snd (CanExecute example_lib [example_approved] 200 ''req-1'')) ''req-1'' =
       Some StatusApprovedExpired
   \<and> fst (CanExecute example_lib [example_approved] 50 ''req-1'') = (True, [])"
proof -
  note missing = CanExecute_preflight [of "[example_approved]" "''nonexistent-id''"
      "''request not found''" example_lib 50 example_approved 100]
  have a: "CanExecute example_lib [example_approved] 50 ''nonexistent-id'' =
       ((False, reason_not_found), [example_approved])"
    by (rule mp [OF conjunct1 [OF missing] example_approved_fields(2)])
  note late = CanExecute_preflight [of "[example_approved]" "''req-1''"
      "''request not found''" example_lib 200 example_approved 100]
  have "Status example_approved = StatusApproved \<and> ApprovalExpiresAt example_approved = Some 100
      \<and> (100::int) \<le> 200"
    using example_approved_fields(3,4) by simp
  with late example_approved_fields(1)
  have b: "fst (CanExecute example_lib [example_approved] 200 ''req-1'') = (False, reason_expired)
      \<and> status_of (snd (CanExecute example_lib [example_approved] 200 ''req-1'')) ''req-1'' =
          Some StatusApprovedExpired"
    by blast
  note early = CanExecute_preflight [of "[example_approved]" "''req-1''"
      "''request not found''" example_lib 50 example_approved 100]
  have "\<exists>q u. GetRequest [example_approved] ''req-1'' = Inr q \<and> Status q = StatusApproved
           \<and> ApprovalExpiresAt q = Some u \<and> 50 < u
           \<and> Hash (Command q) = ComputeCommandHash example_lib (Command q)"
    using example_approved_fields by (intro exI [of _ example_approved] exI [of _ 100]) simp
  with early have c: "fst (CanExecute example_lib [example_approved] 50 ''req-1'') = (True, [])"
    by blast
  from a b c example_approved_fields show ?thesis
    by simp
qed

theorem cleanupOldRollbackCaptures_retention_witness:
  "(0::int) < 50
   \<and> cleanupOldRollbackCaptures (Some example_entries) 50 100 =
       (None, Some [\<lparr>Name = ''req-recent'', IsDir = True, ModTime = 100\<rparr>,
                    \<lparr>Name = ''other-dir'', IsDir = True, ModTime = 0\<rparr>,
                    \<lparr>Name = ''req-file'', IsDir = False, ModTime = 0\<rparr>])
   \<and> (- 1::int) \<le> 0
   \<and> cleanupOldRollbackCaptures (Some example_entries) (- 1) 100 = (None, Some example_entries)"
proof -
  note th = cleanupOldRollbackCaptures_retention [of 50 "Some example_entries" 100 example_entries]
  have "cleanupOldRollbackCaptures (Some example_entries) 50 100 =
          (None, Some (filter (\<lambda>e. \<not> (IsDir e \<and> (\<exists>rest. Name e = ''req-'' @ rest)
                                      \<and> ModTime e < 100 - 50)) example_entries))"
    using th by simp
  then have a: "cleanupOldRollbackCaptures (Some example_entries) 50 100 =
       (None, Some [\<lparr>Name = ''req-recent'', IsDir = True, ModTime = 100\<rparr>,
                    \<lparr>Name = ''other-dir'', IsDir = True, ModTime = 0\<rparr>,
                    \<lparr>Name = ''req-file'', IsDir = False, ModTime = 0\<rparr>])"
    by (simp add: strings_HasPrefix_iff [symmetric] strings_HasPrefix_def example_entries_def)
  note th2 = cleanupOldRollbackCaptures_retention [of "- 1" "Some example_entries" 100 example_entries]
  have b: "cleanupOldRollbackCaptures (Some example_entries) (- 1) 100 = (None, Some example_entries)"
    using th2 by simp
  from a b show ?thesis by simp
qed

section \<open>Properties of the restore\<close>

lemma RestoreRollbackState_append:
  "RestoreRollbackState m fs (pre @ post) =
     (case RestoreRollbackState m fs pre of
        (None, fs1) \<Rightarrow> RestoreRollbackState m fs1 post
      | (Some err, fs1) \<Rightarrow> (Some err, fs1))"
  by (induction pre arbitrary: fs) (simp_all split: sum.splits)

lemma has_symlink_parentI:
  "i < length rel \<Longrightarrow> os_Lstat fs (root @ take i rel) = Some (Symlink t) \<Longrightarrow>
   has_symlink_parent fs root rel"
  by (auto simp: has_symlink_parent_def list_ex_iff is_symlink_def intro!: bexI [of _ i])

lemma restore_entry_refused:
  "Name_hdr hdr = p # rel \<Longrightarrow> m p = Some root \<Longrightarrow> has_symlink_parent fs root rel \<Longrightarrow>
   restore_entry m fs hdr = Inl refused_symlink_parent"
  by (simp add: restore_entry_def)

text \<open>
  C1.  When the entries before a tar entry have been restored and, in the filesystem they
  leave, a parent directory on the path from the restore root to the target of the entry is
  a symlink, \<open>RestoreRollbackState\<close> returns the refusal error and leaves the filesystem
  as it was before the entry: nothing is written for the entry, through the symlink or
  elsewhere, nor for the entries after it.
\<close>

theorem RestoreRollbackState_refuses_symlink_parent:
  assumes "RestoreRollbackState m fs pre = (None, fs1)"
    and "Name_hdr hdr = p # rel" "m p = Some root"
    and "i < length rel" "os_Lstat fs1 (root @ take i rel) = Some (Symlink t)"
  shows "RestoreRollbackState m fs (pre @ hdr # post) = (Some refused_symlink_parent, fs1)"
proof -
  have "has_symlink_parent fs1 root rel"
    using assms(4,5) by (rule has_symlink_parentI)
  with assms(2,3) have "restore_entry m fs1 hdr = Inl refused_symlink_parent"
    by (rule restore_entry_refused)
  then have "RestoreRollbackState m fs1 (hdr # post) = (Some refused_symlink_parent, fs1)"
    by simp
  with assms(1) show ?thesis
    by (simp add: RestoreRollbackState_append)
qed

lemma scenario_lstat:
  "os_Lstat scenario_fs (work @ [''build'']) = Some (Dir 493)"
  "os_Lstat scenario_fs (work @ [''build'', ''sub'']) = Some (Symlink (work @ [''outside'']))"
  "os_Stat scenario_fs (work @ [''build'']) = Some (Dir 493)"
  "os_Stat scenario_fs (work @ [''build'', ''sub'']) = Some (Dir 493)"
  by (simp_all add: os_Lstat_def os_Stat_def physical_def scenario_fs_def work_def)

lemma scenario_dirs:
  "RestoreRollbackState scenario_manifest scenario_fs (take 2 scenario_archive) = (None, scenario_fs)"
  using scenario_lstat
  by (simp add: scenario_archive_def scenario_manifest_def restore_entry_def
      has_symlink_parent_def is_symlink_def)

text \<open>
  The scenario of the tests: \<open>build/sub/a.txt\<close> was captured and \<open>build/sub\<close> is now a
  symlink to the directory \<open>outside\<close>.  The restore is refused and \<open>outside/a.txt\<close> does
  not exist afterwards, whereas writing \<open>build/sub/a.txt\<close> without the check would create
  \<open>outside/a.txt\<close>.
\<close>

theorem RestoreRollbackState_refuses_symlink_parent_witness:
  "RestoreRollbackState scenario_manifest scenario_fs (take 2 scenario_archive) = (None, scenario_fs)
   \<and> Name_hdr (scenario_archive ! 2) = [''p0'', ''sub'', ''a.txt'']
   \<and> scenario_manifest ''p0'' = Some (work @ [''build''])
   \<and> os_Lstat scenario_fs (work @ [''build''] @ take 1 [''sub'', ''a.txt'']) =
       Some (Symlink (work @ [''outside'']))
   \<and> RestoreRollbackState scenario_manifest scenario_fs scenario_archive =
       (Some refused_symlink_parent, scenario_fs)
   \<and> scenario_fs (work @ [''outside'', ''a.txt'']) = None
   \<and> os_put scenario_fs (work @ [''build'', ''sub'', ''a.txt'']) (File 420 ''hello'') =
       Inr (scenario_fs(work @ [''outside'', ''a.txt''] \<mapsto> File 420 ''hello''))"
proof -
  have name: "Name_hdr (scenario_archive ! 2) = ''p0'' # [''sub'', ''a.txt'']"
    by (simp add: scenario_archive_def)
  have root: "scenario_manifest ''p0'' = Some (work @ [''build''])"
    by (simp add: scenario_manifest_def)
  have link: "os_Lstat scenario_fs ((work @ [''build'']) @ take 1 [''sub'', ''a.txt'']) =
       Some (Symlink (work @ [''outside'']))"
    using scenario_lstat(2) by simp
  have split: "scenario_archive = take 2 scenario_archive @ scenario_archive ! 2 # []"
    by (simp add: scenario_archive_def)
  have "RestoreRollbackState scenario_manifest scenario_fs
      (take 2 scenario_archive @ scenario_archive ! 2 # []) =
       (Some refused_symlink_parent, scenario_fs)"
    by (rule RestoreRollbackState_refuses_symlink_parent [OF scenario_dirs name root _ link]) simp
  with split have refused: "RestoreRollbackState scenario_manifest scenario_fs scenario_archive =
       (Some refused_symlink_parent, scenario_fs)"
    by simp
  have outside: "scenario_fs (work @ [''outside'', ''a.txt'']) = None"
    by (simp add: scenario_fs_def work_def)
  have through: "os_put scenario_fs (work @ [''build'', ''sub'', ''a.txt'']) (File 420 ''hello'') =
       Inr (scenario_fs(work @ [''outside'', ''a.txt''] \<mapsto> File 420 ''hello''))"
    by (simp add: os_put_def physical_def scenario_fs_def work_def)
  from scenario_dirs name root link refused outside through show ?thesis
    by simp
qed

section \<open>Properties of the dry-run rewrites\<close>





























end
